theory Spec2Isabelle
  imports Complex_Main
begin

section \<open>Python values, exceptions and text\<close>

text \<open>
  The four analyzers are Python modules. Their issues are dictionaries with values of
  mixed type, and the decoded output of the external tools (JSON, YAML) is an arbitrary
  Python value, so both are modelled by one datatype of Python values. A dictionary is an
  association list in insertion order. A Python float is modelled as an exact rational:
  binary rounding, infinities and NaN are outside the model.

  A text is a list of characters, a character being a code point below 256 (\<open>char\<close>
  has 8 bits). On these code points the character classes, \<open>lower\<close>, \<open>strip\<close>
  and \<open>int\<close> are those of Python's \<open>str\<close>; code points from 256 on are outside the
  model.
\<close>

datatype pyval =
    VNone
  | VBool bool
  | VInt int
  | VFloat rat
  | VStr string
  | VList "pyval list"
  | VDict "(string \<times> pyval) list"

type_synonym pydict = "(string \<times> pyval) list"

text \<open>The exceptions the analyzers can meet; \<open>Exception\<close> is a plain \<open>Exception(msg)\<close>.\<close>

datatype py_exn =
    TimeoutExpired
  | SubprocessError string
  | FileNotFoundError
  | OSError string
  | TypeError
  | AttributeError
  | ValueError
  | ZeroDivisionError
  | Exception string

text \<open>\<open>subprocess.TimeoutExpired\<close> is a subclass of \<open>subprocess.SubprocessError\<close>.\<close>

fun is_subprocess_error :: "py_exn \<Rightarrow> bool" where
  "is_subprocess_error TimeoutExpired = True"
| "is_subprocess_error (SubprocessError m) = True"
| "is_subprocess_error e = False"

text \<open>
  \<open>str(e)\<close> of an exception. The interpreter's wording for its own exceptions is
  not modelled: a fixed, non-empty text stands for it.
\<close>

fun exn_str :: "py_exn \<Rightarrow> string" where
  "exn_str (SubprocessError m) = m"
| "exn_str (OSError m) = m"
| "exn_str (Exception m) = m"
| "exn_str TimeoutExpired = ''Command timed out''"
| "exn_str FileNotFoundError = ''No such file or directory''"
| "exn_str TypeError = ''unsupported operand type''"
| "exn_str AttributeError = ''object has no attribute''"
| "exn_str ValueError = ''invalid literal''"
| "exn_str ZeroDivisionError = ''division by zero''"

text \<open>
  What one \<open>subprocess.run(..., capture_output=True, text=True, timeout=t)\<close> does:
  it completes with a return code, stdout and stderr, or it raises.
\<close>

datatype proc = Completed int string string | Raises py_exn

text \<open>\<open>d.get(k, default)\<close> and \<open>k in d\<close> on a dictionary.\<close>

definition dict_get :: "pydict \<Rightarrow> string \<Rightarrow> pyval \<Rightarrow> pyval" where
  "dict_get d k dflt = (case map_of d k of None \<Rightarrow> dflt | Some v \<Rightarrow> v)"

definition dict_has :: "pydict \<Rightarrow> string \<Rightarrow> bool" where
  "dict_has d k = (map_of d k \<noteq> None)"

text \<open>Truth value of a Python value (\<open>if v\<close>, \<open>not v\<close>).\<close>

fun truthy :: "pyval \<Rightarrow> bool" where
  "truthy VNone = False"
| "truthy (VBool b) = b"
| "truthy (VInt i) = (i \<noteq> 0)"
| "truthy (VFloat r) = (r \<noteq> 0)"
| "truthy (VStr s) = (s \<noteq> [])"
| "truthy (VList xs) = (xs \<noteq> [])"
| "truthy (VDict d) = (d \<noteq> [])"

text \<open>
  \<open>for x in v\<close>: a list gives its elements, a dictionary its keys, a string its
  characters; any other value is not iterable.
\<close>

fun py_iter :: "pyval \<Rightarrow> py_exn + pyval list" where
  "py_iter (VList xs) = Inr xs"
| "py_iter (VDict d) = Inr (map (\<lambda>kv. VStr (fst kv)) d)"
| "py_iter (VStr s) = Inr (map (\<lambda>c. VStr [c]) s)"
| "py_iter v = Inl TypeError"

text \<open>\<open>v.get\<close> exists on dictionaries only.\<close>

fun as_dict :: "pyval \<Rightarrow> py_exn + pydict" where
  "as_dict (VDict d) = Inr d"
| "as_dict v = Inl AttributeError"

text \<open>The numeric value of a number (\<open>bool\<close> is a subclass of \<open>int\<close>).\<close>

fun as_number :: "pyval \<Rightarrow> rat option" where
  "as_number (VBool b) = Some (if b then 1 else 0)"
| "as_number (VInt i) = Some (of_int i)"
| "as_number (VFloat r) = Some r"
| "as_number v = None"

subsection \<open>Characters and strings\<close>

text \<open>
  White space, for \<open>str.isspace\<close>, \<open>str.strip\<close> and \<open>\s\<close>: the ASCII white space,
  the separators 0x1C to 0x1F, the next-line control 0x85 and the no-break space 0xA0.
\<close>

definition py_isspace :: "char \<Rightarrow> bool" where
  "py_isspace c = (c \<in> {CHR 0x09, CHR 0x0A, CHR 0x0B, CHR 0x0C, CHR 0x0D,
                          CHR 0x1C, CHR 0x1D, CHR 0x1E, CHR 0x1F, CHR 0x20,
                          CHR 0x85, CHR 0xA0})"

text \<open>The decimal digits, for \<open>\d\<close> and for the digits that \<open>int\<close> reads.\<close>

definition py_isdigit :: "char \<Rightarrow> bool" where
  "py_isdigit c = (c \<in> set ''0123456789'')"

text \<open>
  The letters and numbers above 127: the ordinal indicators, the superscripts, the micro
  sign, the fractions, and the letters from 0xC0 on (0xD7 and 0xF7 are the signs of
  multiplication and division).
\<close>

abbreviation latin1_word :: string where
  "latin1_word \<equiv>
       [CHR 0xAA, CHR 0xB2, CHR 0xB3, CHR 0xB5, CHR 0xB9, CHR 0xBA, CHR 0xBC, CHR 0xBD,
        CHR 0xBE, CHR 0xC0, CHR 0xC1, CHR 0xC2, CHR 0xC3, CHR 0xC4, CHR 0xC5, CHR 0xC6,
        CHR 0xC7, CHR 0xC8, CHR 0xC9, CHR 0xCA, CHR 0xCB, CHR 0xCC, CHR 0xCD, CHR 0xCE,
        CHR 0xCF, CHR 0xD0, CHR 0xD1, CHR 0xD2, CHR 0xD3, CHR 0xD4, CHR 0xD5, CHR 0xD6,
        CHR 0xD8, CHR 0xD9, CHR 0xDA, CHR 0xDB, CHR 0xDC, CHR 0xDD, CHR 0xDE, CHR 0xDF,
        CHR 0xE0, CHR 0xE1, CHR 0xE2, CHR 0xE3, CHR 0xE4, CHR 0xE5, CHR 0xE6, CHR 0xE7,
        CHR 0xE8, CHR 0xE9, CHR 0xEA, CHR 0xEB, CHR 0xEC, CHR 0xED, CHR 0xEE, CHR 0xEF,
        CHR 0xF0, CHR 0xF1, CHR 0xF2, CHR 0xF3, CHR 0xF4, CHR 0xF5, CHR 0xF6, CHR 0xF8,
        CHR 0xF9, CHR 0xFA, CHR 0xFB, CHR 0xFC, CHR 0xFD, CHR 0xFE, CHR 0xFF]"

text \<open>The word characters, for \<open>\w\<close> and \<open>\b\<close>.\<close>

definition py_isword :: "char \<Rightarrow> bool" where
  "py_isword c =
     (c \<in> set (''abcdefghijklmnopqrstuvwxyzABCDEFGHIJKLMNOPQRSTUVWXYZ0123456789_'' @ latin1_word))"

text \<open>The capital letters above 127, and their small letters (each 0x20 further).\<close>

abbreviation latin1_upper :: string where
  "latin1_upper \<equiv>
       [CHR 0xC0, CHR 0xC1, CHR 0xC2, CHR 0xC3, CHR 0xC4, CHR 0xC5, CHR 0xC6, CHR 0xC7,
        CHR 0xC8, CHR 0xC9, CHR 0xCA, CHR 0xCB, CHR 0xCC, CHR 0xCD, CHR 0xCE, CHR 0xCF,
        CHR 0xD0, CHR 0xD1, CHR 0xD2, CHR 0xD3, CHR 0xD4, CHR 0xD5, CHR 0xD6, CHR 0xD8,
        CHR 0xD9, CHR 0xDA, CHR 0xDB, CHR 0xDC, CHR 0xDD, CHR 0xDE]"

abbreviation latin1_lower :: string where
  "latin1_lower \<equiv>
       [CHR 0xE0, CHR 0xE1, CHR 0xE2, CHR 0xE3, CHR 0xE4, CHR 0xE5, CHR 0xE6, CHR 0xE7,
        CHR 0xE8, CHR 0xE9, CHR 0xEA, CHR 0xEB, CHR 0xEC, CHR 0xED, CHR 0xEE, CHR 0xEF,
        CHR 0xF0, CHR 0xF1, CHR 0xF2, CHR 0xF3, CHR 0xF4, CHR 0xF5, CHR 0xF6, CHR 0xF8,
        CHR 0xF9, CHR 0xFA, CHR 0xFB, CHR 0xFC, CHR 0xFD, CHR 0xFE]"

definition lower_char :: "char \<Rightarrow> char" where
  "lower_char c =
     (case map_of (zip (''ABCDEFGHIJKLMNOPQRSTUVWXYZ'' @ latin1_upper)
                       (''abcdefghijklmnopqrstuvwxyz'' @ latin1_lower)) c of
        None \<Rightarrow> c | Some l \<Rightarrow> l)"

definition py_lower :: "string \<Rightarrow> string" where
  "py_lower s = map lower_char s"

definition strip :: "string \<Rightarrow> string" where
  "strip s = rev (dropWhile py_isspace (rev (dropWhile py_isspace s)))"

definition startswith :: "string \<Rightarrow> string \<Rightarrow> bool" where
  "startswith s p = (take (length p) s = p)"

definition endswith :: "string \<Rightarrow> string \<Rightarrow> bool" where
  "endswith s p = (length p \<le> length s \<and> drop (length s - length p) s = p)"

text \<open>\<open>sub in s\<close> for strings.\<close>

fun py_contains :: "string \<Rightarrow> string \<Rightarrow> bool" where
  "py_contains [] sub = (sub = [])"
| "py_contains (x # xs) sub = (startswith (x # xs) sub \<or> py_contains xs sub)"

text \<open>\<open>s.split(c)\<close> for a separator of one character: never an empty list.\<close>

fun split_chr :: "char \<Rightarrow> string \<Rightarrow> string list" where
  "split_chr c [] = [[]]"
| "split_chr c (x # xs) =
     (if x = c then [] # split_chr c xs
      else (case split_chr c xs of [] \<Rightarrow> [[x]] | y # ys \<Rightarrow> (x # y) # ys))"

text \<open>\<open>s.split(c, n)\<close>: at most \<open>n\<close> splits, the rest of the text is the last part.\<close>

fun split_max :: "char \<Rightarrow> nat \<Rightarrow> string \<Rightarrow> string list" where
  "split_max c 0 s = [s]"
| "split_max c (Suc n) [] = [[]]"
| "split_max c (Suc n) (x # xs) =
     (if x = c then [] # split_max c n xs
      else (case split_max c (Suc n) xs of [] \<Rightarrow> [[x]] | y # ys \<Rightarrow> (x # y) # ys))"

text \<open>\<open>s.find(c) + 1\<close> for a character: 0 when it is absent.\<close>

fun find_plus1 :: "char \<Rightarrow> string \<Rightarrow> nat" where
  "find_plus1 c [] = 0"
| "find_plus1 c (x # xs) = (if x = c then 1 else (case find_plus1 c xs of 0 \<Rightarrow> 0 | Suc k \<Rightarrow> Suc (Suc k)))"

definition digit_val :: "char \<Rightarrow> nat" where
  "digit_val c = (case map_of (zip ''0123456789'' [0, 1, 2, 3, 4, 5, 6, 7, 8, 9]) c of
                    None \<Rightarrow> 0 | Some d \<Rightarrow> d)"

definition nat_of_digits :: "string \<Rightarrow> nat" where
  "nat_of_digits s = foldl (\<lambda>acc c. 10 * acc + digit_val c) 0 s"

text \<open>The underscores of an integer literal stand alone between two digits.\<close>

fun digits_ok :: "string \<Rightarrow> bool" where
  "digits_ok [] = False"
| "digits_ok [c] = py_isdigit c"
| "digits_ok (c # d # cs) =
     (py_isdigit c \<and> (if d = CHR ''_'' then cs \<noteq> [] \<and> digits_ok cs else digits_ok (d # cs)))"

text \<open>
  The most digits that \<open>int\<close> converts (\<open>sys.get_int_max_str_digits()\<close>, at the
  interpreter's default). Leading zeros count; the sign, the white space and the
  underscores do not.
\<close>

definition int_max_str_digits :: nat where
  "int_max_str_digits = 4300"

text \<open>
  \<open>int(s)\<close> on a string: surrounding white space, one optional sign, decimal digits,
  no more of them than the limit. \<open>None\<close> stands for \<open>ValueError\<close>.
\<close>

definition py_int :: "string \<Rightarrow> int option" where
  "py_int s =
     (let t = strip s;
          neg = (t \<noteq> [] \<and> hd t = CHR ''-'');
          body = (if t \<noteq> [] \<and> (hd t = CHR ''-'' \<or> hd t = CHR ''+'') then tl t else t);
          digits = filter (\<lambda>c. c \<noteq> CHR ''_'') body
      in if digits_ok body \<and> length digits \<le> int_max_str_digits
         then Some ((if neg then - 1 else 1) * int (nat_of_digits digits))
         else None)"

text \<open>\<open>str(n)\<close> for a natural number.\<close>

fun str_of_nat :: "nat \<Rightarrow> string" where
  "str_of_nat n =
     (if n < 10 then [''0123456789'' ! n]
      else str_of_nat (n div 10) @ [''0123456789'' ! (n mod 10)])"

text \<open>
  \<open>s.isdigit()\<close>: besides the decimal digits it accepts the superscripts 0xB2, 0xB3
  and 0xB9, which \<open>int\<close> refuses.
\<close>

definition str_isdigit :: "string \<Rightarrow> bool" where
  "str_isdigit s =
     (s \<noteq> [] \<and> list_all (\<lambda>c. py_isdigit c \<or> c \<in> {CHR 0xB2, CHR 0xB3, CHR 0xB9}) s)"

section \<open>Regular expressions\<close>

text \<open>
  The patterns of the analyzers, as syntax trees, and the backtracking matcher of
  Python's \<open>re\<close> on them. A matcher state is the character before the position
  (for \<open>\b\<close> and \<open>^\<close>), the rest of the text and the groups captured so far.
  \<open>rx_match\<close> lists the states after every way to match, in the order in which
  backtracking tries them, so the first one is the match Python reports.
\<close>

datatype cls = Lit char | LitI char | NotLit char | InSet string | Digit | Word | Space | Dot | DotAll

fun cls_ok :: "cls \<Rightarrow> char \<Rightarrow> bool" where
  "cls_ok (Lit c) x = (x = c)"
| "cls_ok (LitI c) x = (lower_char x = lower_char c)"
| "cls_ok (NotLit c) x = (x \<noteq> c)"
| "cls_ok (InSet cs) x = (x \<in> set cs)"
| "cls_ok Digit x = py_isdigit x"
| "cls_ok Word x = py_isword x"
| "cls_ok Space x = py_isspace x"
| "cls_ok Dot x = (x \<noteq> CHR 0x0A)"
| "cls_ok DotAll x = True"

datatype rx =
    Eps
  | Ch cls
  | WordB
  | Bol
  | Seq rx rx
  | Alt rx rx
  | Star rx
  | StarL rx
  | Grp nat rx

type_synonym mstate = "char option \<times> string \<times> (nat \<times> string) list"

fun rx_match :: "rx \<Rightarrow> mstate \<Rightarrow> mstate list" where
  "rx_match Eps st = [st]"
| "rx_match (Ch c) (p, s, g) =
     (case s of [] \<Rightarrow> [] | x # xs \<Rightarrow> if cls_ok c x then [(Some x, xs, g)] else [])"
| "rx_match WordB (p, s, g) =
     (if (case p of None \<Rightarrow> False | Some c \<Rightarrow> py_isword c)
         \<noteq> (case s of [] \<Rightarrow> False | x # xs \<Rightarrow> py_isword x)
      then [(p, s, g)] else [])"
| "rx_match Bol (p, s, g) = (if p = None then [(p, s, g)] else [])"
| "rx_match (Seq a b) st = concat (map (rx_match b) (rx_match a st))"
| "rx_match (Alt a b) st = rx_match a st @ rx_match b st"
| "rx_match (Star a) (p, s, g) =
     concat (map (\<lambda>(p', s', g'). if length s' < length s then rx_match (Star a) (p', s', g') else [])
                 (rx_match a (p, s, g)))
     @ [(p, s, g)]"
| "rx_match (StarL a) (p, s, g) =
     (p, s, g) #
     concat (map (\<lambda>(p', s', g'). if length s' < length s then rx_match (StarL a) (p', s', g') else [])
                 (rx_match a (p, s, g)))"
| "rx_match (Grp n a) (p, s, g) =
     map (\<lambda>(p', s', g'). (p', s', g' @ [(n, take (length s - length s') s)])) (rx_match a (p, s, g))"

definition seqs :: "rx list \<Rightarrow> rx" where
  "seqs rs = foldr Seq rs Eps"

definition rx_word :: "string \<Rightarrow> rx" where
  "rx_word s = seqs (map (\<lambda>c. Ch (Lit c)) s)"

definition rx_word_i :: "string \<Rightarrow> rx" where
  "rx_word_i s = seqs (map (\<lambda>c. Ch (LitI c)) s)"

definition rx_plus :: "rx \<Rightarrow> rx" where
  "rx_plus r = Seq r (Star r)"

definition rx_plus_lazy :: "rx \<Rightarrow> rx" where
  "rx_plus_lazy r = Seq r (StarL r)"

text \<open>
  \<open>re.match(r, s)\<close>: the groups of the first match at the start of the text.
\<close>

definition re_match :: "rx \<Rightarrow> string \<Rightarrow> (nat \<times> string) list option" where
  "re_match r s = (case rx_match r (None, s, []) of [] \<Rightarrow> None | (p, s', g) # rest \<Rightarrow> Some g)"

text \<open>
  \<open>re.search(r, s)\<close>: the groups of the first match at the leftmost position that has one.
\<close>

fun re_search_from :: "rx \<Rightarrow> char option \<Rightarrow> string \<Rightarrow> (nat \<times> string) list option" where
  "re_search_from r p [] =
     (case rx_match r (p, [], []) of [] \<Rightarrow> None | (p', s', g) # rest \<Rightarrow> Some g)"
| "re_search_from r p (x # xs) =
     (case rx_match r (p, x # xs, []) of
        [] \<Rightarrow> re_search_from r (Some x) xs
      | (p', s', g) # rest \<Rightarrow> Some g)"

definition re_search :: "rx \<Rightarrow> string \<Rightarrow> (nat \<times> string) list option" where
  "re_search r s = re_search_from r None s"

text \<open>
  \<open>re.findall(r, s)\<close>: the matches from left to right, each search starting where
  the match before it ended. The first argument counts the characters of the current
  match that are still to be skipped. No pattern of the analyzers matches the empty
  string; for a pattern that does, the scan goes on one character further.
\<close>

fun findall_from :: "rx \<Rightarrow> nat \<Rightarrow> char option \<Rightarrow> string \<Rightarrow> string list" where
  "findall_from r k p [] =
     (if k = 0 \<and> rx_match r (p, [], []) \<noteq> [] then [[]] else [])"
| "findall_from r (Suc k) p (x # xs) = findall_from r k (Some x) xs"
| "findall_from r 0 p (x # xs) =
     (case rx_match r (p, x # xs, []) of
        [] \<Rightarrow> findall_from r 0 (Some x) xs
      | (p', s', g) # rest \<Rightarrow>
          take (length (x # xs) - length s') (x # xs)
          # findall_from r (length (x # xs) - length s' - 1) (Some x) xs)"

definition findall :: "rx \<Rightarrow> string \<Rightarrow> string list" where
  "findall r s = findall_from r 0 None s"

section \<open>Issues and results\<close>

text \<open>
  An issue is a dictionary (\<open>Dict[str, Any]\<close>). The four result dataclasses share
  six fields; the C++ and the JavaScript results carry more.
\<close>

type_synonym issue = pydict

record AnalysisResult =
  language :: string
  errors :: "issue list"
  warnings :: "issue list"
  total_issues :: int
  complexity :: rat
  maintainability_index :: rat

record CppAnalysisResult = AnalysisResult +
  clang_tidy_available :: bool
  analysis_details :: "pydict option"

record JSAnalysisResult = AnalysisResult +
  file_path :: "string option"

text \<open>The value of group \<open>n\<close> of a match.\<close>

definition grp :: "(nat \<times> string) list \<Rightarrow> nat \<Rightarrow> string" where
  "grp g n = (case map_of g n of None \<Rightarrow> [] | Some s \<Rightarrow> s)"

section \<open>The C++ analyzer (analyzer\_cpp.py)\<close>

text \<open>
  The world outside the analyzer: what \<open>clang-tidy --version\<close> does, what the
  two runs of clang-tidy do on a scratch file of a given content, and what
  \<open>yaml.safe_load\<close> decodes (\<open>None\<close> is \<open>yaml.YAMLError\<close>). Writing and
  deleting the scratch file is taken to succeed.
\<close>

record cpp_env =
  cpp_probe :: proc
  clang_tidy_text :: "string \<Rightarrow> proc"
  clang_tidy_yaml :: "string \<Rightarrow> proc"
  yaml_safe_load :: "string \<Rightarrow> pyval option"

definition check_clang_tidy_availability :: "proc \<Rightarrow> py_exn + bool" where
  "check_clang_tidy_availability p =
     (case p of
        Completed rc out err \<Rightarrow> Inr (rc = 0)
      | Raises e \<Rightarrow> if is_subprocess_error e \<or> e = FileNotFoundError then Inr False else Inl e)"

text \<open>The eleven patterns of \<open>_estimate_complexity_from_code\<close>, compiled with IGNORECASE.\<close>

definition cpp_patterns :: "rx list" where
  "cpp_patterns =
     [ seqs [WordB, rx_word_i ''if'', Star (Ch Space), Ch (Lit CHR ''('')],
       seqs [WordB, rx_word_i ''else'', rx_plus (Ch Space), rx_word_i ''if'', Star (Ch Space),
             Ch (Lit CHR ''('')],
       seqs [WordB, rx_word_i ''while'', Star (Ch Space), Ch (Lit CHR ''('')],
       seqs [WordB, rx_word_i ''for'', Star (Ch Space), Ch (Lit CHR ''('')],
       seqs [WordB, rx_word_i ''do'', Star (Ch Space), Ch (Lit CHR ''{'')],
       seqs [WordB, rx_word_i ''switch'', Star (Ch Space), Ch (Lit CHR ''('')],
       seqs [WordB, rx_word_i ''case'', rx_plus (Ch Space)],
       seqs [WordB, rx_word_i ''catch'', Star (Ch Space), Ch (Lit CHR ''('')],
       seqs [WordB, Ch (Lit CHR ''?''), Star (Ch Space)],
       rx_word ''||'',
       rx_word ''&&'' ]"

definition estimate_complexity_from_code :: "string \<Rightarrow> rat" where
  "estimate_complexity_from_code code =
     of_nat (foldl (\<lambda>complexity pattern. complexity + length (findall pattern code)) 1 cpp_patterns)"

definition estimate_maintainability_index :: "string \<Rightarrow> rat \<Rightarrow> rat" where
  "estimate_maintainability_index code cplx =
     (let lines = map strip (filter (\<lambda>line. strip line \<noteq> []) (split_chr CHR 0x0A code));
          total_lines = length lines
      in if total_lines = 0 then 100
         else
           let comment_lines =
                 length (filter (\<lambda>line. startswith line ''//'' \<or> startswith line ''/*'') lines);
               comment_ratio = of_nat comment_lines / of_nat total_lines;
               long_lines = length (filter (\<lambda>line. length line > 120) lines);
               long_line_ratio = of_nat long_lines / of_nat total_lines;
               maintainability = 100 - cplx * 2 - long_line_ratio * 20 + comment_ratio * 10
           in max 0 (min 100 maintainability))"

text \<open>The content of the scratch file that \<open>_create_temp_cpp_file\<close> writes.\<close>

definition create_temp_cpp_file :: "string \<Rightarrow> string" where
  "create_temp_cpp_file code =
     (let has_includes = list_ex (\<lambda>line. py_contains line ''#include'')
                                 (take 10 (split_chr CHR 0x0A code))
      in if \<not> has_includes
         then ''#include <iostream>'' @ [CHR 0x0A] @ ''#include <vector>'' @ [CHR 0x0A]
              @ ''#include <string>'' @ [CHR 0x0A, CHR 0x0A] @ code
         else code)"

text \<open>
  The line pattern of the text parser:
  \<open>^(.+?):(\d+):(\d+):\s*(warning|error|note):\s*(.+?)\s*\[([^\]]+)\]\<close>.
\<close>

definition clang_line_rx :: rx where
  "clang_line_rx =
     seqs [Bol, Grp 1 (rx_plus_lazy (Ch Dot)), Ch (Lit CHR '':''),
           Grp 2 (rx_plus (Ch Digit)), Ch (Lit CHR '':''),
           Grp 3 (rx_plus (Ch Digit)), Ch (Lit CHR '':''), Star (Ch Space),
           Grp 4 (Alt (rx_word ''warning'') (Alt (rx_word ''error'') (rx_word ''note''))),
           Ch (Lit CHR '':''), Star (Ch Space),
           Grp 5 (rx_plus_lazy (Ch Dot)), Star (Ch Space),
           Ch (Lit CHR ''[''), Grp 6 (rx_plus (Ch (NotLit CHR '']''))), Ch (Lit CHR '']'')]"

text \<open>One diagnostic of the YAML branch; the entries are evaluated in the dictionary's order.\<close>

definition yaml_issue :: "pyval \<Rightarrow> py_exn + issue" where
  "yaml_issue diagnostic =
     (case as_dict diagnostic of
        Inl e \<Rightarrow> Inl e
      | Inr d \<Rightarrow>
          (case as_dict (dict_get d ''DiagnosticMessage'' (VDict [])) of
             Inl e \<Rightarrow> Inl e
           | Inr dm \<Rightarrow>
               (case dict_get d ''Level'' (VStr []) of
                  VStr level \<Rightarrow>
                    Inr [(''line'', dict_get dm ''FileOffset'' (VInt 0)),
                         (''column'', VInt 0),
                         (''message'', dict_get dm ''Message'' (VStr ''Unknown issue'')),
                         (''severity'',
                            VStr (if py_contains (py_lower level) ''error'' then ''error'' else ''warning'')),
                         (''symbol'', dict_get d ''DiagnosticName'' (VStr ''clang-tidy''))]
                | other \<Rightarrow> Inl AttributeError)))"

fun yaml_loop :: "pyval list \<Rightarrow> issue list \<times> issue list \<Rightarrow> py_exn + issue list \<times> issue list" where
  "yaml_loop [] acc = Inr acc"
| "yaml_loop (diagnostic # rest) (es, ws) =
     (case yaml_issue diagnostic of
        Inl e \<Rightarrow> Inl e
      | Inr issue \<Rightarrow>
          if dict_get issue ''severity'' VNone = VStr ''error''
          then yaml_loop rest (es @ [issue], ws)
          else yaml_loop rest (es, ws @ [issue]))"

text \<open>
  \<open>int(g)\<close> on a group of a match. The group was matched by \<open>\d+\<close>, so the only
  \<open>ValueError\<close> left is that of a number with more digits than \<open>int\<close> converts.
\<close>

definition int_group :: "string \<Rightarrow> py_exn + int" where
  "int_group s = (case py_int s of None \<Rightarrow> Inl ValueError | Some i \<Rightarrow> Inr i)"

text \<open>
  The loop of the text parser. Nothing in it catches the \<open>ValueError\<close> of \<open>int\<close>.
  A line at the level \<open>note\<close> matches the pattern and is appended to neither list.
\<close>

fun text_loop :: "string list \<Rightarrow> issue list \<times> issue list \<Rightarrow> py_exn + issue list \<times> issue list" where
  "text_loop [] acc = Inr acc"
| "text_loop (line # rest) (es, ws) =
     (case re_match clang_line_rx line of
        None \<Rightarrow> text_loop rest (es, ws)
      | Some g \<Rightarrow>
          (case int_group (grp g 2) of
             Inl e \<Rightarrow> Inl e
           | Inr line_num \<Rightarrow>
               (case int_group (grp g 3) of
                  Inl e \<Rightarrow> Inl e
                | Inr col_num \<Rightarrow>
                    let severity = grp g 4;
                        issue = [(''line'', VInt line_num),
                                 (''column'', VInt col_num),
                                 (''message'', VStr (strip (grp g 5))),
                                 (''severity'', VStr (py_lower severity)),
                                 (''symbol'', VStr (grp g 6))]
                    in if py_lower severity \<in> set [''error'']
                       then text_loop rest (es @ [issue], ws)
                       else if py_lower severity \<in> set [''warning'']
                       then text_loop rest (es, ws @ [issue])
                       else text_loop rest (es, ws))))"

definition parse_clang_tidy_output ::
  "(string \<Rightarrow> pyval option) \<Rightarrow> string \<Rightarrow> bool \<Rightarrow> py_exn + issue list \<times> issue list" where
  "parse_clang_tidy_output load output yaml =
     (case (if yaml
            then (case load output of
                    None \<Rightarrow> Inr ([], [])
                  | Some (VDict data) \<Rightarrow>
                      if dict_has data ''Diagnostics''
                      then (case py_iter (dict_get data ''Diagnostics'' VNone) of
                              Inl e \<Rightarrow> Inl e
                            | Inr ds \<Rightarrow> yaml_loop ds ([], []))
                      else Inr ([], [])
                  | Some other \<Rightarrow> Inr ([], []))
            else Inr ([], [])) of
        Inl e \<Rightarrow> Inl e
      | Inr (es, ws) \<Rightarrow>
          if es = [] \<and> ws = [] then text_loop (split_chr CHR 0x0A output) (es, ws)
          else Inr (es, ws))"

definition timeout_warning :: issue where
  "timeout_warning =
     [(''line'', VInt 1), (''column'', VInt 1),
      (''message'', VStr ''Analysis timeout - code may be too complex''),
      (''severity'', VStr ''warning''), (''symbol'', VStr ''timeout'')]"

definition analysis_error :: "py_exn \<Rightarrow> issue" where
  "analysis_error e =
     [(''line'', VInt 1), (''column'', VInt 1),
      (''message'', VStr (''Analysis failed: '' @ exn_str e)),
      (''severity'', VStr ''error''), (''symbol'', VStr ''analysis-error'')]"

text \<open>
  The two \<open>except\<close> clauses of \<open>_run_clang_tidy_analysis\<close>, applied to the lists
  as they are when the exception arrives; any other exception leaves the method.
\<close>

definition run_handler :: "py_exn \<Rightarrow> issue list \<times> issue list \<Rightarrow> py_exn + issue list \<times> issue list" where
  "run_handler e acc =
     (if e = TimeoutExpired then Inr (fst acc, snd acc @ [timeout_warning])
      else if is_subprocess_error e then Inr (fst acc @ [analysis_error e], snd acc)
      else Inl e)"

definition run_clang_tidy_analysis ::
  "cpp_env \<Rightarrow> bool \<Rightarrow> string \<Rightarrow> py_exn + issue list \<times> issue list" where
  "run_clang_tidy_analysis env available temp_file =
     (if \<not> available then Inr ([], [])
      else
        (case clang_tidy_text env temp_file of
           Raises e \<Rightarrow> run_handler e ([], [])
         | Completed rc out err \<Rightarrow>
             (case (if out \<noteq> [] \<or> err \<noteq> []
                    then parse_clang_tidy_output (yaml_safe_load env) (out @ err) False
                    else Inr ([], [])) of
                Inl e \<Rightarrow> run_handler e ([], [])
              | Inr (es, ws) \<Rightarrow>
                  if es = [] \<and> ws = [] then
                    (case clang_tidy_yaml env temp_file of
                       Raises e \<Rightarrow>
                         if is_subprocess_error e then Inr (es, ws) else run_handler e (es, ws)
                     | Completed rc2 out2 err2 \<Rightarrow>
                         if out2 \<noteq> [] then
                           (case parse_clang_tidy_output (yaml_safe_load env) out2 True of
                              Inl e \<Rightarrow>
                                if is_subprocess_error e then Inr (es, ws) else run_handler e (es, ws)
                            | Inr r \<Rightarrow> Inr r)
                         else Inr (es, ws))
                  else Inr (es, ws))))"

text \<open>\<open>CppAnalyzer.analyze\<close>, for an analyzer whose probe gave \<open>available\<close>.\<close>

definition cpp_analyze :: "cpp_env \<Rightarrow> bool \<Rightarrow> string \<Rightarrow> string \<Rightarrow> py_exn + CppAnalysisResult" where
  "cpp_analyze env available code lang =
     (if strip code = [] then
        Inr \<lparr> language = lang, errors = [], warnings = [], total_issues = 0,
              complexity = 1, maintainability_index = 100,
              clang_tidy_available = available, analysis_details = None \<rparr>
      else
        (case run_clang_tidy_analysis env available (create_temp_cpp_file code) of
           Inl e \<Rightarrow> Inl e
         | Inr (es, ws) \<Rightarrow>
             let cplx = estimate_complexity_from_code code;
                 maintainability = estimate_maintainability_index code cplx;
                 total = int (length es) + int (length ws);
                 details = [(''clang_tidy_used'', VBool available),
                            (''temp_file_created'', VBool True),
                            (''lines_analyzed'',
                               VInt (int (length (filter (\<lambda>line. strip line \<noteq> [])
                                                      (split_chr CHR 0x0A code)))))]
             in Inr \<lparr> language = lang, errors = es, warnings = ws, total_issues = total,
                      complexity = cplx, maintainability_index = maintainability,
                      clang_tidy_available = available, analysis_details = Some details \<rparr>))"

text \<open>\<open>analyze_cpp_code\<close>: a new analyzer (whose constructor probes the tool), then \<open>analyze\<close>.\<close>

definition analyze_cpp_code :: "cpp_env \<Rightarrow> string \<Rightarrow> string \<Rightarrow> py_exn + CppAnalysisResult" where
  "analyze_cpp_code env code lang =
     (case check_clang_tidy_availability (cpp_probe env) of
        Inl e \<Rightarrow> Inl e
      | Inr available \<Rightarrow> cpp_analyze env available code lang)"

section \<open>The Java analyzer (analyzer\_java.py)\<close>

text \<open>
  An element of the tree that \<open>xml.etree.ElementTree\<close> decodes: tag, attributes,
  children.
\<close>

datatype xml = Elem string "(string \<times> string) list" "xml list"

fun xml_tag :: "xml \<Rightarrow> string" where
  "xml_tag (Elem t a c) = t"

fun xml_attrs :: "xml \<Rightarrow> (string \<times> string) list" where
  "xml_attrs (Elem t a c) = a"

text \<open>\<open>e.findall(tag)\<close>: the direct children with that tag.\<close>

fun xml_findall :: "xml \<Rightarrow> string \<Rightarrow> xml list" where
  "xml_findall (Elem t a c) tag = filter (\<lambda>e. xml_tag e = tag) c"

text \<open>
  The world outside the analyzer: what \<open>checkstyle --version\<close> does, what the run
  of checkstyle does on a scratch file of a given content, and what
  \<open>ET.fromstring\<close> decodes (\<open>None\<close> is \<open>ET.ParseError\<close>). Writing and deleting
  the scratch files is taken to succeed.
\<close>

record java_env =
  checkstyle_probe :: proc
  checkstyle_run :: "string \<Rightarrow> proc"
  et_fromstring :: "string \<Rightarrow> xml option"

definition check_checkstyle_availability :: "proc \<Rightarrow> py_exn + bool" where
  "check_checkstyle_availability p =
     (case p of
        Completed rc out err \<Rightarrow> Inr (rc = 0)
      | Raises e \<Rightarrow> if e = TimeoutExpired \<or> e = FileNotFoundError then Inr False else Inl e)"

definition run_checkstyle_analysis :: "proc \<Rightarrow> py_exn + string" where
  "run_checkstyle_analysis p =
     (case p of
        Completed rc out err \<Rightarrow>
          if rc \<in> set [0, 1] then Inr out else Inl (Exception (''Checkstyle failed: '' @ err))
      | Raises e \<Rightarrow>
          if e = TimeoutExpired then Inl (Exception ''Checkstyle analysis timed out'')
          else if e = FileNotFoundError
          then Inl (Exception ''Checkstyle not found. Please install Checkstyle: https://checkstyle.sourceforge.io/'')
          else Inl e)"

definition extract_rule_name :: "string \<Rightarrow> string" where
  "extract_rule_name source = (if source = [] then ''unknown'' else last (split_chr CHR ''.'' source))"

text \<open>\<open>int(e.get(k, 0))\<close> on an attribute.\<close>

definition int_attr :: "(string \<times> string) list \<Rightarrow> string \<Rightarrow> py_exn + int" where
  "int_attr attrs k =
     (case map_of attrs k of
        None \<Rightarrow> Inr 0
      | Some s \<Rightarrow> (case py_int s of None \<Rightarrow> Inl ValueError | Some i \<Rightarrow> Inr i))"

definition str_attr :: "(string \<times> string) list \<Rightarrow> string \<Rightarrow> string \<Rightarrow> string" where
  "str_attr attrs k dflt = (case map_of attrs k of None \<Rightarrow> dflt | Some s \<Rightarrow> s)"

definition checkstyle_issue :: "xml \<Rightarrow> py_exn + issue" where
  "checkstyle_issue error_elem =
     (let a = xml_attrs error_elem in
      case int_attr a ''line'' of
        Inl e \<Rightarrow> Inl e
      | Inr line_no \<Rightarrow>
          (case int_attr a ''column'' of
             Inl e \<Rightarrow> Inl e
           | Inr col \<Rightarrow>
               Inr [(''line'', VInt line_no), (''column'', VInt col),
                    (''severity'', VStr (str_attr a ''severity'' ''warning'')),
                    (''message'', VStr (str_attr a ''message'' [])),
                    (''source'', VStr (str_attr a ''source'' [])),
                    (''symbol'', VStr (extract_rule_name (str_attr a ''source'' [])))]))"

text \<open>\<open>issue['severity'].lower() == 'error'\<close>, for an issue whose severity is a string.\<close>

definition severity_is_error :: "issue \<Rightarrow> bool" where
  "severity_is_error issue =
     (case dict_get issue ''severity'' VNone of VStr s \<Rightarrow> py_lower s = ''error'' | other \<Rightarrow> False)"

fun checkstyle_errors :: "xml list \<Rightarrow> issue list \<times> issue list \<Rightarrow> py_exn + issue list \<times> issue list" where
  "checkstyle_errors [] acc = Inr acc"
| "checkstyle_errors (error_elem # rest) (es, ws) =
     (case checkstyle_issue error_elem of
        Inl e \<Rightarrow> Inl e
      | Inr issue \<Rightarrow>
          if severity_is_error issue then checkstyle_errors rest (es @ [issue], ws)
          else checkstyle_errors rest (es, ws @ [issue]))"

fun checkstyle_files :: "xml list \<Rightarrow> issue list \<times> issue list \<Rightarrow> py_exn + issue list \<times> issue list" where
  "checkstyle_files [] acc = Inr acc"
| "checkstyle_files (file_elem # rest) acc =
     (case checkstyle_errors (xml_findall file_elem ''error'') acc of
        Inl e \<Rightarrow> Inl e
      | Inr acc' \<Rightarrow> checkstyle_files rest acc')"

text \<open>
  The line pattern of the plain-text fallback:
  \<open>\[(\w+)\]\s+.*?:(\d+):(\d+):\s+(.*?)\s+\[([^\]]+)\]\<close>.
\<close>

definition checkstyle_line_rx :: rx where
  "checkstyle_line_rx =
     seqs [Ch (Lit CHR ''[''), Grp 1 (rx_plus (Ch Word)), Ch (Lit CHR '']''), rx_plus (Ch Space),
           StarL (Ch Dot), Ch (Lit CHR '':''),
           Grp 2 (rx_plus (Ch Digit)), Ch (Lit CHR '':''),
           Grp 3 (rx_plus (Ch Digit)), Ch (Lit CHR '':''), rx_plus (Ch Space),
           Grp 4 (StarL (Ch Dot)), rx_plus (Ch Space),
           Ch (Lit CHR ''[''), Grp 5 (rx_plus (Ch (NotLit CHR '']''))), Ch (Lit CHR '']'')]"

text \<open>The loop of the plain-text fallback; the \<open>ValueError\<close> of \<open>int\<close> leaves it.\<close>

fun checkstyle_text_loop ::
  "string list \<Rightarrow> issue list \<times> issue list \<Rightarrow> py_exn + issue list \<times> issue list" where
  "checkstyle_text_loop [] acc = Inr acc"
| "checkstyle_text_loop (raw # rest) (es, ws) =
     (let line = strip raw in
      if line = [] \<or> py_contains line ''Starting audit'' \<or> py_contains line ''Audit done''
      then checkstyle_text_loop rest (es, ws)
      else
        (case re_match checkstyle_line_rx line of
           None \<Rightarrow> checkstyle_text_loop rest (es, ws)
         | Some g \<Rightarrow>
             (case int_group (grp g 2) of
                Inl e \<Rightarrow> Inl e
              | Inr line_num \<Rightarrow>
                  (case int_group (grp g 3) of
                     Inl e \<Rightarrow> Inl e
                   | Inr col_num \<Rightarrow>
                       let severity = grp g 1;
                           issue = [(''line'', VInt line_num),
                                    (''column'', VInt col_num),
                                    (''severity'', VStr (py_lower severity)),
                                    (''message'', VStr (strip (grp g 4))),
                                    (''source'', VStr (grp g 5)),
                                    (''symbol'', VStr (grp g 5))]
                       in if py_lower severity = ''error''
                          then checkstyle_text_loop rest (es @ [issue], ws)
                          else checkstyle_text_loop rest (es, ws @ [issue])))))"

definition parse_checkstyle_text :: "string \<Rightarrow> py_exn + issue list \<times> issue list" where
  "parse_checkstyle_text text_output = checkstyle_text_loop (split_chr CHR 0x0A text_output) ([], [])"

definition parse_checkstyle_xml ::
  "(string \<Rightarrow> xml option) \<Rightarrow> string \<Rightarrow> py_exn + issue list \<times> issue list" where
  "parse_checkstyle_xml fromstring xml_output =
     (if strip xml_output = [] then Inr ([], [])
      else
        (case fromstring xml_output of
           None \<Rightarrow> parse_checkstyle_text xml_output
         | Some root_elem \<Rightarrow> checkstyle_files (xml_findall root_elem ''file'') ([], [])))"

text \<open>
  The patterns of \<open>_calculate_complexity_metrics\<close>. The count of classes is computed
  by the source and never read, so it is left out.
\<close>

definition java_keyword_rx :: "string \<Rightarrow> rx" where
  "java_keyword_rx kw = seqs [WordB, rx_word kw, Star (Ch Space), Ch (Lit CHR ''('')]"

definition java_ternary_rx :: rx where
  "java_ternary_rx = seqs [Ch (Lit CHR ''?''), Star (Ch Dot), Ch (Lit CHR '':'')]"

definition java_method_rx :: rx where
  "java_method_rx =
     seqs [WordB,
           Grp 1 (Alt (rx_word ''public'') (Alt (rx_word ''private'')
                  (Alt (rx_word ''protected'') (rx_word ''static'')))),
           StarL (Ch Dot), WordB, rx_plus (Ch Word), Star (Ch Space),
           Ch (Lit CHR ''(''), Star (Ch (NotLit CHR '')'')), Ch (Lit CHR '')''), Star (Ch Space),
           Ch (Lit CHR ''{'')]"

definition java_comment_rx :: rx where
  "java_comment_rx =
     Alt (seqs [rx_word ''//'', Star (Ch DotAll)])
         (seqs [rx_word ''/*'', StarL (Ch DotAll), rx_word ''*/''])"

definition calculate_complexity_metrics :: "string \<Rightarrow> rat \<times> rat" where
  "calculate_complexity_metrics code =
     (let if_statements = length (findall (java_keyword_rx ''if'') code);
          while_loops = length (findall (java_keyword_rx ''while'') code);
          for_loops = length (findall (java_keyword_rx ''for'') code);
          switch_statements = length (findall (java_keyword_rx ''switch'') code);
          catch_blocks = length (findall (java_keyword_rx ''catch'') code);
          ternary_ops = length (findall java_ternary_rx code);
          complexity_score = 1 + if_statements + while_loops + for_loops + switch_statements * 2
                             + catch_blocks + ternary_ops;
          lines = filter (\<lambda>line. strip line \<noteq> [] \<and> \<not> startswith (strip line) ''//'')
                         (split_chr CHR 0x0A code);
          loc = length lines;
          methods = length (findall java_method_rx code);
          maintainability =
            (if loc > 0 then
               let avg_complexity_per_method = (of_nat complexity_score :: rat) / of_nat (max 1 methods);
                   comment_ratio = (of_nat (length (findall java_comment_rx code)) :: rat) / of_nat loc;
                   m = 100 - avg_complexity_per_method * 5 - of_nat loc / 20 + comment_ratio * 10
               in max 0 (min 100 m)
             else 100)
      in (of_nat complexity_score, maintainability))"

text \<open>The pattern \<open>^\s*(//|/\*|\*|\*/)\<close> of the basic analysis.\<close>

definition java_comment_start_rx :: rx where
  "java_comment_start_rx =
     seqs [Bol, Star (Ch Space),
           Grp 1 (Alt (rx_word ''//'') (Alt (rx_word ''/*'') (Alt (rx_word ''*'') (rx_word ''*/''))))]"

definition basic_issue :: "nat \<Rightarrow> nat \<Rightarrow> string \<Rightarrow> string \<Rightarrow> string \<Rightarrow> string \<Rightarrow> issue" where
  "basic_issue line_no col sev msg src symb =
     [(''line'', VInt (int line_no)), (''column'', VInt (int col)), (''severity'', VStr sev),
      (''message'', VStr msg), (''source'', VStr src), (''symbol'', VStr symb)]"

text \<open>The four checks of one line of \<open>_basic_java_analysis\<close>: the issues they append.\<close>

definition basic_line :: "nat \<Rightarrow> string \<Rightarrow> issue list \<times> issue list" where
  "basic_line i raw =
     (let line = strip raw in
      if line \<noteq> [] \<and> \<not> startswith line ''//'' \<and> \<not> startswith line ''/*'' then
        ((if endswith line '';'' \<and>
             (startswith line ''if'' \<or> startswith line ''while'' \<or> startswith line ''for'')
          then [basic_issue i 1 ''error'' ''Control statement should not end with semicolon''
                  ''BasicSyntaxCheck'' ''ControlStatementSemicolon'']
          else []),
         (if line \<noteq> []
             \<and> \<not> list_ex (endswith line) ['';'', ''{'', ''}'', '')'', ''//'', ''*/'']
             \<and> \<not> list_ex (startswith line)
                    [''@'', ''package'', ''import'', ''public class'', ''private class'', ''class'']
             \<and> \<not> list_ex (py_contains line)
                    [''if'', ''else'', ''while'', ''for'', ''try'', ''catch'', ''finally'']
             \<and> re_match java_comment_start_rx line = None
          then [basic_issue i (length line) ''warning'' ''Statement might be missing semicolon''
                  ''BasicSyntaxCheck'' ''MissingSemicolon'']
          else [])
         @ (if length line > 120
            then [basic_issue i 120 ''warning''
                    (''Line too long ('' @ str_of_nat (length line) @ '' characters)'')
                    ''LineLengthCheck'' ''LineLength'']
            else [])
         @ (if CHR 0x09 \<in> set line
            then [basic_issue i (find_plus1 CHR 0x09 line) ''warning'' ''Use spaces instead of tabs''
                    ''WhitespaceCheck'' ''TabCharacter'']
            else []))
      else ([], []))"

fun basic_loop :: "nat \<Rightarrow> string list \<Rightarrow> issue list \<times> issue list \<Rightarrow> issue list \<times> issue list" where
  "basic_loop i [] acc = acc"
| "basic_loop i (raw # rest) (es, ws) =
     basic_loop (Suc i) rest (es @ fst (basic_line i raw), ws @ snd (basic_line i raw))"

definition basic_java_analysis :: "string \<Rightarrow> AnalysisResult" where
  "basic_java_analysis code =
     (let (es, ws) = basic_loop 1 (split_chr CHR 0x0A code) ([], []);
          (cplx, maintainability) = calculate_complexity_metrics code
      in \<lparr> language = ''Java'', errors = es, warnings = ws,
           total_issues = int (length es) + int (length ws),
           complexity = cplx, maintainability_index = maintainability \<rparr>)"

text \<open>\<open>JavaAnalyzer.analyze\<close>: every \<open>Exception\<close> after the probe leads to the basic analysis.\<close>

definition java_analyze :: "java_env \<Rightarrow> string \<Rightarrow> py_exn + AnalysisResult" where
  "java_analyze env code =
     (case check_checkstyle_availability (checkstyle_probe env) of
        Inl e \<Rightarrow> Inl e
      | Inr available \<Rightarrow>
          if \<not> available then Inr (basic_java_analysis code)
          else
            (case run_checkstyle_analysis (checkstyle_run env code) of
               Inl e \<Rightarrow> Inr (basic_java_analysis code)
             | Inr xml_output \<Rightarrow>
                 (case parse_checkstyle_xml (et_fromstring env) xml_output of
                    Inl e \<Rightarrow> Inr (basic_java_analysis code)
                  | Inr (es, ws) \<Rightarrow>
                      let (cplx, maintainability) = calculate_complexity_metrics code
                      in Inr \<lparr> language = ''Java'', errors = es, warnings = ws,
                               total_issues = int (length es) + int (length ws),
                               complexity = cplx, maintainability_index = maintainability \<rparr>)))"

definition analyze_java_code :: "java_env \<Rightarrow> string \<Rightarrow> string \<Rightarrow> py_exn + AnalysisResult" where
  "analyze_java_code env code lang = java_analyze env code"

text \<open>\<open>analyze_code\<close> of analyzer\_java.py.\<close>

definition java_analyze_code :: "java_env \<Rightarrow> string \<Rightarrow> string \<Rightarrow> py_exn + AnalysisResult" where
  "java_analyze_code env code lang =
     (if py_lower lang \<in> set [''java''] then analyze_java_code env code lang
      else
        Inr \<lparr> language = lang, errors = [],
              warnings = [[(''line'', VInt 1), (''column'', VInt 1), (''severity'', VStr ''warning''),
                           (''message'', VStr (''Analysis not yet implemented for '' @ lang)),
                           (''source'', VStr ''UnsupportedLanguage''),
                           (''symbol'', VStr ''NotImplemented'')]],
              total_issues = 1, complexity = 1, maintainability_index = 75 \<rparr>)"

section \<open>The JavaScript analyzer (analyzer\_js.py)\<close>

text \<open>
  The world outside the analyzer: what \<open>eslint --version\<close> does, what the run of
  ESLint does on a scratch file of a given content, what \<open>json.loads\<close> decodes
  (\<open>None\<close> is \<open>json.JSONDecodeError\<close>) and the path of the scratch file.
  Writing and deleting the scratch files is taken to succeed.
\<close>

record js_env =
  eslint_probe :: proc
  eslint_run :: "string \<Rightarrow> proc"
  js_json_loads :: "string \<Rightarrow> pyval option"
  js_temp_path :: string

definition check_eslint_availability :: "proc \<Rightarrow> py_exn + bool" where
  "check_eslint_availability p =
     (case p of
        Completed rc out err \<Rightarrow> Inr (rc = 0)
      | Raises e \<Rightarrow> if is_subprocess_error e \<or> e = FileNotFoundError then Inr False else Inl e)"

text \<open>\<open>_run_eslint\<close>: \<open>VNone\<close> is Python's \<open>None\<close>; every exception ends in it.\<close>

definition run_eslint :: "js_env \<Rightarrow> bool \<Rightarrow> string \<Rightarrow> pyval" where
  "run_eslint env available content =
     (if \<not> available then VNone
      else
        (case eslint_run env content of
           Raises e \<Rightarrow> VNone
         | Completed rc out err \<Rightarrow>
             if out \<noteq> [] then (case js_json_loads env out of None \<Rightarrow> VNone | Some v \<Rightarrow> v)
             else VList []))"

definition complexity_indicators :: "(string \<times> rat) list" where
  "complexity_indicators =
     [(''no-unused-vars'', 1 / 2),
      (''complexity'', 2),
      (''max-depth'', 3 / 2),
      (''max-nested-callbacks'', 3 / 2),
      (''max-params'', 1),
      (''max-statements'', 1),
      (''cyclomatic-complexity'', 2),
      (''no-loop-func'', 1),
      (''no-inner-declarations'', 1 / 2),
      (''no-eval'', 3 / 2),
      (''no-implied-eval'', 3 / 2),
      (''no-with'', 1)]"

text \<open>
  \<open>complexity_indicators.get(rule_id, 0.1)\<close>: a list or a dictionary is not hashable;
  any other value that is not one of the keys gets the default.
\<close>

fun indicator_weight :: "pyval \<Rightarrow> py_exn + rat" where
  "indicator_weight (VStr s) =
     Inr (case map_of complexity_indicators s of None \<Rightarrow> 1 / 10 | Some w \<Rightarrow> w)"
| "indicator_weight (VList xs) = Inl TypeError"
| "indicator_weight (VDict d) = Inl TypeError"
| "indicator_weight v = Inr (1 / 10)"

text \<open>The loop of \<open>_calculate_complexity_score\<close>; \<open>weight * severity\<close> needs a number.\<close>

fun complexity_loop :: "issue list \<Rightarrow> rat \<Rightarrow> py_exn + rat" where
  "complexity_loop [] total_complexity = Inr total_complexity"
| "complexity_loop (issue # rest) total_complexity =
     (let rule_id = dict_get issue ''ruleId'' (VStr []);
          severity = dict_get issue ''severity'' (VInt 1)
      in case indicator_weight rule_id of
           Inl e \<Rightarrow> Inl e
         | Inr weight \<Rightarrow>
             (case as_number severity of
                None \<Rightarrow> Inl TypeError
              | Some sev \<Rightarrow> complexity_loop rest (total_complexity + weight * sev)))"

definition calculate_complexity_score :: "issue list \<Rightarrow> py_exn + rat" where
  "calculate_complexity_score issues =
     (if issues = [] then Inr 1
      else (case complexity_loop issues 1 of
              Inl e \<Rightarrow> Inl e
            | Inr total_complexity \<Rightarrow> Inr (min total_complexity 20)))"

definition critical_rules :: "string list" where
  "critical_rules =
     [''no-eval'', ''no-implied-eval'', ''no-with'', ''no-global-assign'',
      ''no-unreachable'', ''no-unused-vars'', ''no-undef'']"

definition is_critical :: "issue \<Rightarrow> bool" where
  "is_critical error =
     (case dict_get error ''ruleId'' VNone of VStr s \<Rightarrow> s \<in> set critical_rules | other \<Rightarrow> False)"

definition calculate_maintainability_index :: "issue list \<Rightarrow> issue list \<Rightarrow> rat" where
  "calculate_maintainability_index es ws =
     (let base_score = 100;
          error_deduction = of_nat (length es) * 5 + of_nat (length (filter is_critical es)) * 3;
          warning_deduction = of_nat (length ws) * 2;
          final_score = base_score - error_deduction - warning_deduction
      in max 0 (min 100 final_score))"

text \<open>\<open>message.get('severity', 1) == 2\<close>.\<close>

definition severity_is_2 :: "pydict \<Rightarrow> bool" where
  "severity_is_2 message = (as_number (dict_get message ''severity'' (VInt 1)) = Some 2)"

definition eslint_issue :: "pydict \<Rightarrow> issue" where
  "eslint_issue message =
     [(''line'', dict_get message ''line'' (VInt 0)),
      (''column'', dict_get message ''column'' (VInt 0)),
      (''message'', dict_get message ''message'' (VStr ''Unknown issue'')),
      (''severity'', VStr (if severity_is_2 message then ''error'' else ''warning'')),
      (''symbol'', dict_get message ''ruleId'' (VStr ''unknown-rule'')),
      (''rule_id'', dict_get message ''ruleId'' (VStr ''unknown-rule''))]"

fun eslint_messages :: "pyval list \<Rightarrow> issue list \<times> issue list \<Rightarrow> py_exn + issue list \<times> issue list" where
  "eslint_messages [] acc = Inr acc"
| "eslint_messages (message # rest) (es, ws) =
     (case as_dict message of
        Inl e \<Rightarrow> Inl e
      | Inr m \<Rightarrow>
          if severity_is_2 m then eslint_messages rest (es @ [eslint_issue m], ws)
          else eslint_messages rest (es, ws @ [eslint_issue m]))"

fun eslint_files :: "pyval list \<Rightarrow> issue list \<times> issue list \<Rightarrow> py_exn + issue list \<times> issue list" where
  "eslint_files [] acc = Inr acc"
| "eslint_files (file_result # rest) acc =
     (case as_dict file_result of
        Inl e \<Rightarrow> Inl e
      | Inr f \<Rightarrow>
          (case py_iter (dict_get f ''messages'' (VList [])) of
             Inl e \<Rightarrow> Inl e
           | Inr messages \<Rightarrow>
               (case eslint_messages messages acc of
                  Inl e \<Rightarrow> Inl e
                | Inr acc' \<Rightarrow> eslint_files rest acc')))"

text \<open>\<open>_parse_eslint_output\<close>: the errors, the warnings and \<open>total_issues\<close>.\<close>

definition parse_eslint_output :: "pyval \<Rightarrow> py_exn + issue list \<times> issue list \<times> int" where
  "parse_eslint_output eslint_result =
     (case py_iter eslint_result of
        Inl e \<Rightarrow> Inl e
      | Inr files \<Rightarrow>
          (case eslint_files files ([], []) of
             Inl e \<Rightarrow> Inl e
           | Inr (es, ws) \<Rightarrow> Inr (es, ws, int (length es) + int (length ws))))"

definition eslint_unavailable :: issue where
  "eslint_unavailable =
     [(''line'', VInt 1), (''column'', VInt 1),
      (''message'', VStr ''ESLint not available. Please install: npm install -g eslint''),
      (''severity'', VStr ''warning''), (''symbol'', VStr ''eslint-unavailable'')]"

text \<open>\<open>JavaScriptAnalyzer.analyze_code\<close>, for an analyzer whose probe gave \<open>available\<close>.\<close>

definition js_analyze_code :: "js_env \<Rightarrow> bool \<Rightarrow> string \<Rightarrow> string \<Rightarrow> py_exn + JSAnalysisResult" where
  "js_analyze_code env available code lang =
     (let eslint_result = run_eslint env available code in
      if eslint_result = VNone then
        Inr \<lparr> language = lang, errors = [], warnings = [eslint_unavailable], total_issues = 1,
              complexity = 5, maintainability_index = 50, file_path = Some (js_temp_path env) \<rparr>
      else
        (case parse_eslint_output eslint_result of
           Inl e \<Rightarrow> Inl e
         | Inr (es, ws, n_total) \<Rightarrow>
             (case calculate_complexity_score (es @ ws) of
                Inl e \<Rightarrow> Inl e
              | Inr cplx \<Rightarrow>
                  Inr \<lparr> language = lang, errors = es, warnings = ws, total_issues = n_total,
                        complexity = cplx,
                        maintainability_index = calculate_maintainability_index es ws,
                        file_path = Some (js_temp_path env) \<rparr>)))"

definition analyze_javascript_code :: "js_env \<Rightarrow> string \<Rightarrow> string \<Rightarrow> py_exn + JSAnalysisResult" where
  "analyze_javascript_code env code lang =
     (case check_eslint_availability (eslint_probe env) of
        Inl e \<Rightarrow> Inl e
      | Inr available \<Rightarrow> js_analyze_code env available code lang)"

text \<open>\<open>analyze_code\<close> of analyzer\_js.py.\<close>

definition js_module_analyze_code :: "js_env \<Rightarrow> string \<Rightarrow> string \<Rightarrow> py_exn + JSAnalysisResult" where
  "js_module_analyze_code env code lang =
     (if py_lower lang \<in> set [''javascript'', ''js'', ''javascript (react)'', ''typescript'', ''ts'']
      then analyze_javascript_code env code lang
      else
        Inr \<lparr> language = lang, errors = [],
              warnings = [[(''line'', VInt 1), (''column'', VInt 1),
                           (''message'',
                              VStr (''Language '' @ lang @ '' not supported by JavaScript analyzer'')),
                           (''severity'', VStr ''warning''),
                           (''symbol'', VStr ''unsupported-language'')]],
              total_issues = 1, complexity = 5, maintainability_index = 50, file_path = None \<rparr>)"

section \<open>The Python analyzer (analyzer\_py.py)\<close>

text \<open>
  The world outside the analyzer: what the runs of pylint and of radon (cyclomatic
  complexity, maintainability index) do on a scratch file of a given content, what
  \<open>json.loads\<close> decodes (\<open>None\<close> is \<open>json.JSONDecodeError\<close>) and what
  \<open>float\<close> reads from a string (\<open>None\<close> is \<open>ValueError\<close>). Writing and
  deleting the scratch file is taken to succeed.
\<close>

record py_env =
  pylint_run :: "string \<Rightarrow> proc"
  radon_cc_run :: "string \<Rightarrow> proc"
  radon_mi_run :: "string \<Rightarrow> proc"
  py_json_loads :: "string \<Rightarrow> pyval option"
  float_of_str :: "string \<Rightarrow> rat option"

definition create_error_result :: "string \<Rightarrow> string \<Rightarrow> pydict" where
  "create_error_result error_message error_type =
     [(''issues'', VList []), (''score'', VFloat 5),
      (''error'', VStr error_message), (''error_type'', VStr error_type)]"

text \<open>
  \<open>int(s) if s.isdigit() else d\<close>; \<open>None\<close> stands for the \<open>ValueError\<close> of
  \<open>int\<close> on a text that \<open>isdigit\<close> accepts (a superscript, too many digits).
\<close>

definition int_if_digit :: "string \<Rightarrow> int \<Rightarrow> int option" where
  "int_if_digit s d = (if str_isdigit s then py_int s else Some d)"

text \<open>
  One line of \<open>_parse_pylint_text\<close>: the issue it appends, if any. A
  \<open>ValueError\<close> is caught in the loop, and the line is passed over.
\<close>

definition pylint_text_line :: "string \<Rightarrow> pydict option" where
  "pylint_text_line line =
     (if CHR '':'' \<in> set line
         \<and> list_ex (py_contains line) [''error'', ''warning'', ''convention'', ''refactor'']
      then
        (let parts = split_max CHR '':'' 4 line in
         if length parts \<ge> 4 then
           (case int_if_digit (parts ! 1) 1 of
              None \<Rightarrow> None
            | Some line_num \<Rightarrow>
                (case int_if_digit (parts ! 2) 0 of
                   None \<Rightarrow> None
                 | Some col_num \<Rightarrow>
                     Some [(''line'', VInt line_num),
                           (''column'', VInt col_num),
                           (''type'', VStr (strip (parts ! 3))),
                           (''message'',
                              VStr (if length parts > 4 then strip (parts ! 4) else ''Unknown issue'')),
                           (''symbol'', VStr ''unknown'')]))
         else None)
      else None)"

definition parse_pylint_text :: "string \<Rightarrow> pydict list" where
  "parse_pylint_text output = List.map_filter pylint_text_line (split_chr CHR 0x0A output)"

text \<open>The pattern \<open>Your code has been rated at ([\d.]+)/10\<close>.\<close>

definition pylint_score_rx :: rx where
  "pylint_score_rx =
     seqs [rx_word ''Your code has been rated at '',
           Grp 1 (rx_plus (Ch (InSet ''0123456789.''))), rx_word ''/10'']"

definition extract_pylint_score :: "py_env \<Rightarrow> string \<Rightarrow> rat" where
  "extract_pylint_score env stderr =
     (case re_search pylint_score_rx stderr of
        None \<Rightarrow> 5
      | Some g \<Rightarrow> (case float_of_str env (grp g 1) of None \<Rightarrow> 5 | Some r \<Rightarrow> r))"

definition run_pylint :: "py_env \<Rightarrow> string \<Rightarrow> pydict" where
  "run_pylint env content =
     (case pylint_run env content of
        Completed rc out err \<Rightarrow>
          (let pylint_output =
                 (if strip out \<noteq> [] then
                    (case py_json_loads env out of
                       Some v \<Rightarrow> v
                     | None \<Rightarrow> VList (map VDict (parse_pylint_text out)))
                  else VList []);
               score = extract_pylint_score env err
           in [(''issues'', (case pylint_output of VList xs \<Rightarrow> VList xs | other \<Rightarrow> VList [])),
               (''score'', VFloat score),
               (''raw_output'', VStr out),
               (''stderr'', VStr err)])
      | Raises e \<Rightarrow>
          if e = TimeoutExpired then create_error_result ''Analysis timeout'' ''timeout''
          else if e = FileNotFoundError then create_error_result ''Pylint not installed'' ''environment''
          else create_error_result (exn_str e) ''runtime'')"

text \<open>
  The inner loop of \<open>_calculate_average_complexity\<close> over the items of one file:
  the running total and the number of functions counted.
\<close>

fun complexity_items :: "pyval list \<Rightarrow> rat \<times> nat \<Rightarrow> py_exn + rat \<times> nat" where
  "complexity_items [] acc = Inr acc"
| "complexity_items (item # rest) (total_complexity, function_count) =
     (case item of
        VDict d \<Rightarrow>
          if dict_has d ''complexity'' then
            (case as_number (dict_get d ''complexity'' VNone) of
               None \<Rightarrow> Inl TypeError
             | Some c \<Rightarrow> complexity_items rest (total_complexity + c, function_count + 1))
          else complexity_items rest (total_complexity, function_count)
      | other \<Rightarrow> complexity_items rest (total_complexity, function_count))"

text \<open>
  The outer loop over the files. The test \<open>function_count==0\<close> stands inside the
  loop body, after the items of each file; the division follows the loop.
\<close>

fun complexity_files :: "pyval list \<Rightarrow> rat \<times> nat \<Rightarrow> py_exn + rat" where
  "complexity_files [] (total_complexity, function_count) =
     (if function_count = 0 then Inl ZeroDivisionError
      else Inr (total_complexity / of_nat function_count))"
| "complexity_files (file_data # rest) acc =
     (case (case file_data of VList items \<Rightarrow> complexity_items items acc | other \<Rightarrow> Inr acc) of
        Inl e \<Rightarrow> Inl e
      | Inr (total_complexity, function_count) \<Rightarrow>
          if function_count = 0 then Inr 1
          else complexity_files rest (total_complexity, function_count))"

definition calculate_average_complexity :: "pyval \<Rightarrow> py_exn + rat" where
  "calculate_average_complexity cc_data =
     (if \<not> truthy cc_data then Inr 1
      else (case cc_data of
              VDict d \<Rightarrow> complexity_files (map snd d) (0, 0)
            | other \<Rightarrow> Inl AttributeError))"

text \<open>\<open>float(v)\<close>.\<close>

definition py_float :: "py_env \<Rightarrow> pyval \<Rightarrow> py_exn + rat" where
  "py_float env v =
     (case v of
        VStr s \<Rightarrow> (case float_of_str env s of None \<Rightarrow> Inl ValueError | Some r \<Rightarrow> Inr r)
      | other \<Rightarrow> (case as_number v of None \<Rightarrow> Inl TypeError | Some r \<Rightarrow> Inr r))"

fun maintainability_items :: "py_env \<Rightarrow> (string \<times> pyval) list \<Rightarrow> py_exn + rat" where
  "maintainability_items env [] = Inr 50"
| "maintainability_items env ((k, v) # rest) =
     (case v of
        VDict d \<Rightarrow>
          if dict_has d ''mi'' then py_float env (dict_get d ''mi'' VNone)
          else maintainability_items env rest
      | VBool b \<Rightarrow> py_float env v
      | VInt i \<Rightarrow> py_float env v
      | VFloat r \<Rightarrow> py_float env v
      | other \<Rightarrow> maintainability_items env rest)"

definition extract_maintainability_index :: "py_env \<Rightarrow> pyval \<Rightarrow> py_exn + rat" where
  "extract_maintainability_index env mi_data =
     (if \<not> truthy mi_data then Inr 50
      else (case mi_data of
              VDict d \<Rightarrow> maintainability_items env d
            | other \<Rightarrow> Inl AttributeError))"

text \<open>The three \<open>except\<close> clauses of \<open>run_radon_complexity\<close>.\<close>

definition radon_handler :: "py_exn \<Rightarrow> pydict" where
  "radon_handler e =
     (if e = TimeoutExpired then create_error_result ''Complexity analysis timeout'' ''timeout''
      else if e = FileNotFoundError then create_error_result ''Radon not installed'' ''environment''
      else create_error_result (exn_str e) ''runtime'')"

text \<open>The output of one radon run, decoded; an empty dictionary when it cannot be.\<close>

definition radon_data :: "py_env \<Rightarrow> string \<Rightarrow> pyval" where
  "radon_data env out =
     (if strip out \<noteq> [] then (case py_json_loads env out of None \<Rightarrow> VDict [] | Some v \<Rightarrow> v)
      else VDict [])"

definition run_radon_complexity :: "py_env \<Rightarrow> string \<Rightarrow> pydict" where
  "run_radon_complexity env content =
     (case radon_cc_run env content of
        Raises e \<Rightarrow> radon_handler e
      | Completed rc out err \<Rightarrow>
          (case radon_mi_run env content of
             Raises e \<Rightarrow> radon_handler e
           | Completed rc2 out2 err2 \<Rightarrow>
               (let cc_data = radon_data env out;
                    mi_data = radon_data env out2
                in case calculate_average_complexity cc_data of
                     Inl e \<Rightarrow> radon_handler e
                   | Inr avg_complexity \<Rightarrow>
                       (case extract_maintainability_index env mi_data of
                          Inl e \<Rightarrow> radon_handler e
                        | Inr maintainability \<Rightarrow>
                            [(''complexity'', VFloat avg_complexity),
                             (''maintainability_index'', VFloat maintainability),
                             (''complexity_details'', cc_data),
                             (''maintainability_details'', mi_data)]))))"

text \<open>
  The text of a value inside an f-string, and the number of a metric. The results of
  \<open>run_pylint\<close> and \<open>run_radon_complexity\<close> hold a string under \<open>error\<close> and
  floats under the metrics; for any other value these two give the empty text and 0.
\<close>

definition str_of :: "pyval \<Rightarrow> string" where
  "str_of v = (case v of VStr s \<Rightarrow> s | other \<Rightarrow> [])"

definition the_number :: "pyval \<Rightarrow> rat" where
  "the_number v = (case as_number v of None \<Rightarrow> 0 | Some r \<Rightarrow> r)"

text \<open>One pylint issue of \<open>parse_analysis_results\<close>: its type in lower case and its data.\<close>

definition pylint_issue :: "pyval \<Rightarrow> py_exn + string \<times> issue" where
  "pylint_issue v =
     (case as_dict v of
        Inl e \<Rightarrow> Inl e
      | Inr issue \<Rightarrow>
          (case dict_get issue ''type'' (VStr []) of
             VStr t \<Rightarrow>
               Inr (py_lower t,
                    [(''line'', dict_get issue ''line'' (VInt 1)),
                     (''column'', dict_get issue ''column'' (VInt 0)),
                     (''message'', dict_get issue ''message'' (VStr ''Unknown issue'')),
                     (''symbol'', dict_get issue ''symbol'' (VStr ''unknown'')),
                     (''severity'', VStr (py_lower t))])
           | other \<Rightarrow> Inl AttributeError))"

fun pylint_issues :: "pyval list \<Rightarrow> issue list \<times> issue list \<Rightarrow> py_exn + issue list \<times> issue list" where
  "pylint_issues [] acc = Inr acc"
| "pylint_issues (v # rest) (es, ws) =
     (case pylint_issue v of
        Inl e \<Rightarrow> Inl e
      | Inr (issue_type, issue_data) \<Rightarrow>
          if issue_type \<in> set [''error'', ''fatal''] then pylint_issues rest (es @ [issue_data], ws)
          else pylint_issues rest (es, ws @ [issue_data]))"

definition parse_analysis_results :: "pydict \<Rightarrow> pydict \<Rightarrow> string \<Rightarrow> py_exn + AnalysisResult" where
  "parse_analysis_results pylint_result radon_result lang =
     (let es0 = (if truthy (dict_get pylint_result ''error'' VNone)
                 then [[(''type'', VStr ''tool_error''),
                        (''message'', VStr (''Pylint error: '' @ str_of (dict_get pylint_result ''error'' VNone))),
                        (''severity'', VStr ''high'')]]
                 else []);
          es1 = es0 @ (if truthy (dict_get radon_result ''error'' VNone)
                       then [[(''type'', VStr ''tool_error''),
                              (''message'',
                                 VStr (''Complexity analysis error: ''
                                       @ str_of (dict_get radon_result ''error'' VNone))),
                              (''severity'', VStr ''medium'')]]
                       else [])
      in case py_iter (dict_get pylint_result ''issues'' (VList [])) of
           Inl e \<Rightarrow> Inl e
         | Inr vs \<Rightarrow>
             (case pylint_issues vs (es1, []) of
                Inl e \<Rightarrow> Inl e
              | Inr (es, ws) \<Rightarrow>
                  Inr \<lparr> language = lang, errors = es, warnings = ws,
                        total_issues = int (length es) + int (length ws),
                        complexity = the_number (dict_get radon_result ''complexity'' (VFloat 1)),
                        maintainability_index =
                          the_number (dict_get radon_result ''maintainability_index'' (VFloat 50)) \<rparr>))"

definition analyze_python_code :: "py_env \<Rightarrow> string \<Rightarrow> py_exn + AnalysisResult" where
  "analyze_python_code env code =
     parse_analysis_results (run_pylint env code) (run_radon_complexity env code) ''Python''"

text \<open>
  \<open>CodeAnalyzer.analyze_code\<close>: the \<open>else\<close> branch is inside a string literal, so
  for any other language the method ends without a \<open>return\<close>; \<open>None\<close> is Python's
  \<open>None\<close>.
\<close>

definition py_analyze_code :: "py_env \<Rightarrow> string \<Rightarrow> string \<Rightarrow> py_exn + AnalysisResult option" where
  "py_analyze_code env code lang =
     (if py_lower lang = ''python''
      then (case analyze_python_code env code of Inl e \<Rightarrow> Inl e | Inr r \<Rightarrow> Inr (Some r))
      else Inr None)"

definition analyze_code_py :: "py_env \<Rightarrow> string \<Rightarrow> string \<Rightarrow> py_exn + AnalysisResult option" where
  "analyze_code_py env code lang = py_analyze_code env code lang"

section \<open>Properties and example worlds\<close>

text \<open>The invariant of a result: the total is the number of errors plus the number of warnings.\<close>

definition issues_counted :: "'a AnalysisResult_scheme \<Rightarrow> bool" where
  "issues_counted r = (total_issues r = int (length (errors r)) + int (length (warnings r)))"

text \<open>Worlds in which no tool is installed: every invocation finds no executable.\<close>

definition cpp_env_missing :: cpp_env where
  "cpp_env_missing =
     \<lparr> cpp_probe = Raises FileNotFoundError,
       clang_tidy_text = (\<lambda>c. Raises FileNotFoundError),
       clang_tidy_yaml = (\<lambda>c. Raises FileNotFoundError),
       yaml_safe_load = (\<lambda>s. None) \<rparr>"

definition java_env_missing :: java_env where
  "java_env_missing =
     \<lparr> checkstyle_probe = Raises FileNotFoundError,
       checkstyle_run = (\<lambda>c. Raises FileNotFoundError),
       et_fromstring = (\<lambda>s. None) \<rparr>"

definition js_env_missing :: js_env where
  "js_env_missing =
     \<lparr> eslint_probe = Raises FileNotFoundError,
       eslint_run = (\<lambda>c. Raises FileNotFoundError),
       js_json_loads = (\<lambda>s. None),
       js_temp_path = ''/tmp/tmp0.js'' \<rparr>"

definition py_env_missing :: py_env where
  "py_env_missing =
     \<lparr> pylint_run = (\<lambda>c. Raises FileNotFoundError),
       radon_cc_run = (\<lambda>c. Raises FileNotFoundError),
       radon_mi_run = (\<lambda>c. Raises FileNotFoundError),
       py_json_loads = (\<lambda>s. None),
       float_of_str = (\<lambda>s. None) \<rparr>"

text \<open>The C-family scenario of the specification: two lines, one \<open>if\<close>.\<close>

definition scenario_code :: string where
  "scenario_code = ''#include <iostream>'' @ [CHR 0x0A] @ ''int main(){ if(1){} return 0; }''"

text \<open>
  The score on messages as ESLint prints them: the weight of a message's \<open>ruleId\<close>
  (0.1 for an identifier outside the table, or for none), its numeric severity (1 when
  it has none), and the messages for which \<open>weight * severity\<close> is defined.
\<close>

definition rule_weight :: "issue \<Rightarrow> rat" where
  "rule_weight issue =
     (case dict_get issue ''ruleId'' (VStr []) of
        VStr s \<Rightarrow> (case map_of complexity_indicators s of None \<Rightarrow> 1 / 10 | Some w \<Rightarrow> w)
      | other \<Rightarrow> 1 / 10)"

definition numeric_severity :: "issue \<Rightarrow> rat" where
  "numeric_severity issue = the_number (dict_get issue ''severity'' (VInt 1))"

definition scorable :: "issue \<Rightarrow> bool" where
  "scorable issue =
     (as_number (dict_get issue ''severity'' (VInt 1)) \<noteq> None
      \<and> (case dict_get issue ''ruleId'' (VStr []) of VList xs \<Rightarrow> False | VDict d \<Rightarrow> False | other \<Rightarrow> True))"

text \<open>
  A world in which ESLint runs and reports one message, a use of \<open>eval\<close> at
  warning level.
\<close>

definition eval_message :: pydict where
  "eval_message =
     [(''ruleId'', VStr ''no-eval''), (''severity'', VInt 1),
      (''message'', VStr ''eval can be harmful.''), (''line'', VInt 1), (''column'', VInt 1)]"

definition js_env_eval :: js_env where
  "js_env_eval =
     \<lparr> eslint_probe = Completed 0 ''v8.57.0'' [],
       eslint_run = (\<lambda>c. Completed 1 ''[{...}]'' []),
       js_json_loads = (\<lambda>s. Some (VList [VDict [(''filePath'', VStr ''/tmp/tmp0.js''),
                                                   (''messages'', VList [VDict eval_message])]])),
       js_temp_path = ''/tmp/tmp0.js'' \<rparr>"

text \<open>The severity entry of an issue.\<close>

definition severity_of :: "issue \<Rightarrow> pyval" where
  "severity_of issue = dict_get issue ''severity'' VNone"

text \<open>
  For claim C4: a diagnostic of clang-tidy at the level \<open>note\<close>, as a line of the
  text output and as an entry of the YAML output, and a world in which clang-tidy is
  installed, prints that line for the scenario code, and exports no YAML.
\<close>

definition note_line :: string where
  "note_line = ''t.cpp:3:5: note: use nullptr [modernize-use-nullptr]''"

definition note_diagnostic :: pyval where
  "note_diagnostic =
     VDict [(''DiagnosticName'', VStr ''modernize-use-nullptr''), (''Level'', VStr ''Note''),
            (''DiagnosticMessage'', VDict [(''Message'', VStr ''use nullptr''), (''FileOffset'', VInt 40)])]"

definition cpp_env_note :: cpp_env where
  "cpp_env_note =
     \<lparr> cpp_probe = Completed 0 ''LLVM version 17'' [],
       clang_tidy_text = (\<lambda>c. Completed 0 note_line []),
       clang_tidy_yaml = (\<lambda>c. Completed 0 [] []),
       yaml_safe_load = (\<lambda>s. None) \<rparr>"

text \<open>For claim C5: the issues that \<open>_parse_eslint_output\<close> builds.\<close>

definition from_eslint :: "issue \<Rightarrow> bool" where
  "from_eslint i = (\<exists>m. i = eslint_issue m)"

text \<open>
  A world in which pylint reports nothing and radon reports no function and a given
  maintainability index for the scratch file.
\<close>

definition py_env_radon :: "rat \<Rightarrow> py_env" where
  "py_env_radon mi =
     \<lparr> pylint_run = (\<lambda>c. Completed 0 [] []),
       radon_cc_run = (\<lambda>c. Completed 0 ''cc'' []),
       radon_mi_run = (\<lambda>c. Completed 0 ''mi'' []),
       py_json_loads = (\<lambda>s. if s = ''mi''
                              then Some (VDict [(''/tmp/tmp0.py'', VDict [(''mi'', VFloat mi), (''rank'', VStr ''A'')])])
                              else Some (VDict [(''/tmp/tmp0.py'', VList [])])),
       float_of_str = (\<lambda>s. None) \<rparr>"

text \<open>
  A world in which ESLint runs and reports no message, and a source text of white space
  only.
\<close>

definition js_env_clean :: js_env where
  "js_env_clean =
     \<lparr> eslint_probe = Completed 0 ''v8.57.0'' [],
       eslint_run = (\<lambda>c. Completed 0 ''[{...}]'' []),
       js_json_loads = (\<lambda>s. Some (VList [VDict [(''filePath'', VStr ''/tmp/tmp0.js''),
                                                   (''messages'', VList [])]])),
       js_temp_path = ''/tmp/tmp0.js'' \<rparr>"

definition blank_code :: string where
  "blank_code = [CHR 0x20, CHR 0x0A, CHR 0xA0, CHR 0x09]"

text \<open>
  A world in which the run of ESLint fails: it exits with status 2 and prints nothing
  on its standard output.
\<close>

definition js_env_crash :: js_env where
  "js_env_crash =
     \<lparr> eslint_probe = Completed 0 ''v8.57.0'' [],
       eslint_run = (\<lambda>c. Completed 2 [] ''Oops! Something went wrong!''),
       js_json_loads = (\<lambda>s. None),
       js_temp_path = ''/tmp/tmp0.js'' \<rparr>"

text \<open>A world in which ESLint is installed and prints what is not JSON.\<close>

definition js_env_garbled :: js_env where
  "js_env_garbled =
     \<lparr> eslint_probe = Completed 0 ''v8.57.0'' [],
       eslint_run = (\<lambda>c. Completed 2 ''Error: Cannot read config file'' []),
       js_json_loads = (\<lambda>s. None),
       js_temp_path = ''/tmp/tmp0.js'' \<rparr>"

text \<open>For claim C3: a text of white space only, which is what \<open>strip\<close> empties.\<close>

definition blank :: "string \<Rightarrow> bool" where
  "blank s = list_all py_isspace s"

text \<open>A position inside a blank text: the character before it is none or white.\<close>

definition blank_before :: "char option \<Rightarrow> bool" where
  "blank_before p = (case p of None \<Rightarrow> True | Some c \<Rightarrow> py_isspace c)"

text \<open>
  For claim C2: a probe that completes, times out or finds no executable (all three
  analyzers expect these outcomes), and the issues of pylint that are objects with a
  string under \<open>type\<close> (or with none).
\<close>

definition probe_plain :: "proc \<Rightarrow> bool" where
  "probe_plain p =
     (case p of Completed rc out err \<Rightarrow> True
              | Raises e \<Rightarrow> e = TimeoutExpired \<or> e = FileNotFoundError)"

definition pylint_issue_ok :: "pyval \<Rightarrow> bool" where
  "pylint_issue_ok v =
     (case v of
        VDict d \<Rightarrow> (case dict_get d ''type'' (VStr []) of VStr t \<Rightarrow> True | other \<Rightarrow> False)
      | other \<Rightarrow> False)"

definition pylint_issue_values :: "py_env \<Rightarrow> string \<Rightarrow> pyval list" where
  "pylint_issue_values env code =
     (case dict_get (run_pylint env code) ''issues'' (VList []) of VList xs \<Rightarrow> xs | other \<Rightarrow> [])"

text \<open>
  A world for claim C2: ESLint runs and reports one error, an undefined name at
  severity 2 (a scenario of the specification).
\<close>

definition undef_message :: pydict where
  "undef_message =
     [(''ruleId'', VStr ''no-undef''), (''severity'', VInt 2),
      (''message'', VStr ''foo is not defined.''), (''line'', VInt 1), (''column'', VInt 1)]"

definition js_env_undef :: js_env where
  "js_env_undef =
     \<lparr> eslint_probe = Completed 0 ''v8.57.0'' [],
       eslint_run = (\<lambda>c. Completed 1 ''[{...}]'' []),
       js_json_loads = (\<lambda>s. Some (VList [VDict [(''filePath'', VStr ''/tmp/tmp0.js''),
                                                   (''messages'', VList [VDict undef_message])]])),
       js_temp_path = ''/tmp/tmp0.js'' \<rparr>"

text \<open>
  For claim C6: the function-level complexity values of the items of one file entry,
  and the items whose values are numbers.
\<close>

definition function_values :: "pyval list \<Rightarrow> rat list" where
  "function_values items =
     concat (map (\<lambda>item. case item of
                           VDict d \<Rightarrow> if dict_has d ''complexity''
                                      then [the_number (dict_get d ''complexity'' VNone)] else []
                         | other \<Rightarrow> []) items)"

definition value_numeric :: "pyval \<Rightarrow> bool" where
  "value_numeric item =
     (case item of
        VDict d \<Rightarrow> \<not> dict_has d ''complexity''
                   \<or> as_number (dict_get d ''complexity'' VNone) \<noteq> None
      | other \<Rightarrow> True)"

definition values_numeric :: "pyval list \<Rightarrow> bool" where
  "values_numeric items = list_all value_numeric items"

text \<open>
  For claim C3: the output of the complexity tool reports no function, in any of its
  file entries.
\<close>

definition no_function_reported :: "pydict \<Rightarrow> bool" where
  "no_function_reported cc_data =
     list_all (\<lambda>entry. case snd entry of
                          VList items \<Rightarrow> function_values items = []
                        | other \<Rightarrow> True) cc_data"

section \<open>The total of a result\<close>

lemma cpp_analyze_counted:
  "cpp_analyze env available code lang = Inr r \<Longrightarrow> issues_counted r"
  by (auto simp: cpp_analyze_def issues_counted_def Let_def split: if_splits sum.splits prod.splits)

lemma basic_java_analysis_counted: "issues_counted (basic_java_analysis code)"
  by (simp add: basic_java_analysis_def issues_counted_def split: prod.splits)

lemma java_analyze_counted: "java_analyze env code = Inr r \<Longrightarrow> issues_counted r"
  by (auto simp: java_analyze_def basic_java_analysis_counted
           split: if_splits sum.splits prod.splits) (simp add: issues_counted_def)

lemma java_analyze_code_counted: "java_analyze_code env code lang = Inr r \<Longrightarrow> issues_counted r"
  by (auto simp: java_analyze_code_def analyze_java_code_def issues_counted_def
           dest: java_analyze_counted split: if_splits)

lemma parse_eslint_output_counted:
  "parse_eslint_output v = Inr (es, ws, n) \<Longrightarrow> n = int (length es) + int (length ws)"
  by (auto simp: parse_eslint_output_def split: sum.splits prod.splits)

lemma js_analyze_code_counted:
  "js_analyze_code env available code lang = Inr r \<Longrightarrow> issues_counted r"
  by (auto simp: js_analyze_code_def issues_counted_def Let_def
           dest: parse_eslint_output_counted split: if_splits sum.splits prod.splits)

lemma js_module_analyze_code_counted:
  "js_module_analyze_code env code lang = Inr r \<Longrightarrow> issues_counted r"
  by (auto simp: js_module_analyze_code_def analyze_javascript_code_def issues_counted_def
           dest: js_analyze_code_counted split: if_splits sum.splits)

lemma parse_analysis_results_counted:
  "parse_analysis_results pl rd lang = Inr r \<Longrightarrow> issues_counted r"
  by (auto simp: parse_analysis_results_def issues_counted_def Let_def split: sum.splits prod.splits)

lemma analyze_code_py_counted:
  "analyze_code_py env code lang = Inr (Some r) \<Longrightarrow> issues_counted r"
  by (auto simp: analyze_code_py_def py_analyze_code_def analyze_python_code_def
           dest: parse_analysis_results_counted split: if_splits sum.splits)

text \<open>
  Claim C1. Every result that an analyzer returns has \<open>total_issues\<close> equal to the
  number of its errors plus the number of its warnings: the C++ analyzer (with the tool
  available or not), the Java entry point (tool result, basic analysis or unsupported
  language), the JavaScript entry point (tool result, fallback or unsupported language)
  and the Python entry point, in every world; so have the parsed output of ESLint and
  every result of \<open>parse_analysis_results\<close>.
\<close>

theorem total_issues_invariant:
  "(cpp_analyze cenv available ccode clang = Inr rc \<longrightarrow>
      total_issues rc = int (length (errors rc)) + int (length (warnings rc)))
   \<and> (java_analyze_code jenv jcode jlang = Inr rj \<longrightarrow>
      total_issues rj = int (length (errors rj)) + int (length (warnings rj)))
   \<and> (js_module_analyze_code senv scode slang = Inr rs \<longrightarrow>
      total_issues rs = int (length (errors rs)) + int (length (warnings rs)))
   \<and> (analyze_code_py penv pcode plang = Inr (Some rp) \<longrightarrow>
      total_issues rp = int (length (errors rp)) + int (length (warnings rp)))
   \<and> (parse_eslint_output v = Inr (es, ws, n) \<longrightarrow> n = int (length es) + int (length ws))
   \<and> (parse_analysis_results pl rd qlang = Inr rq \<longrightarrow>
      total_issues rq = int (length (errors rq)) + int (length (warnings rq)))"
  by (auto dest: cpp_analyze_counted java_analyze_code_counted js_module_analyze_code_counted
        analyze_code_py_counted parse_eslint_output_counted parse_analysis_results_counted
      simp: issues_counted_def)

theorem total_issues_invariant_witness:
  "(\<exists>r. cpp_analyze cpp_env_missing False ''int x;'' ''C++'' = Inr r
        \<and> total_issues r = int (length (errors r)) + int (length (warnings r)))
   \<and> (\<exists>r. java_analyze_code java_env_missing ''int x'' ''java'' = Inr r
        \<and> total_issues r = int (length (errors r)) + int (length (warnings r)))
   \<and> (\<exists>r. js_module_analyze_code js_env_missing ''var x'' ''js'' = Inr r
        \<and> total_issues r = int (length (errors r)) + int (length (warnings r)))
   \<and> (\<exists>r. analyze_code_py py_env_missing ''x = 1'' ''python'' = Inr (Some r)
        \<and> total_issues r = int (length (errors r)) + int (length (warnings r)))
   \<and> (\<exists>es ws n. parse_eslint_output (VList [VDict [(''messages'', VList [VDict eval_message])]])
          = Inr (es, ws, n) \<and> n = int (length es) + int (length ws))
   \<and> (\<exists>r. parse_analysis_results (create_error_result ''Analysis timeout'' ''timeout'')
          (create_error_result ''Radon not installed'' ''environment'') ''Python'' = Inr r
        \<and> total_issues r = int (length (errors r)) + int (length (warnings r)))"
proof -
  have "\<exists>es ws n. parse_eslint_output (VList [VDict [(''messages'', VList [VDict eval_message])]])
          = Inr (es, ws, n)"
    by (simp add: parse_eslint_output_def dict_get_def)
  then obtain es ws n where
    e: "parse_eslint_output (VList [VDict [(''messages'', VList [VDict eval_message])]]) = Inr (es, ws, n)"
    by blast
  have "\<exists>r. parse_analysis_results (create_error_result ''Analysis timeout'' ''timeout'')
          (create_error_result ''Radon not installed'' ''environment'') ''Python'' = Inr r"
    by (simp add: parse_analysis_results_def create_error_result_def dict_get_def Let_def)
  then obtain rq where
    q: "parse_analysis_results (create_error_result ''Analysis timeout'' ''timeout'')
          (create_error_result ''Radon not installed'' ''environment'') ''Python'' = Inr rq"
    by blast
  have "\<exists>r. cpp_analyze cpp_env_missing False ''int x;'' ''C++'' = Inr r"
    by (simp add: cpp_analyze_def run_clang_tidy_analysis_def Let_def)
  then obtain rc where c: "cpp_analyze cpp_env_missing False ''int x;'' ''C++'' = Inr rc" by blast
  have "\<exists>r. java_analyze_code java_env_missing ''int x'' ''java'' = Inr r"
    by (simp add: java_analyze_code_def analyze_java_code_def java_analyze_def
          check_checkstyle_availability_def java_env_missing_def py_lower_def lower_char_def)
  then obtain rj where j: "java_analyze_code java_env_missing ''int x'' ''java'' = Inr rj" by blast
  have "\<exists>r. js_module_analyze_code js_env_missing ''var x'' ''js'' = Inr r"
    by (simp add: js_module_analyze_code_def analyze_javascript_code_def js_analyze_code_def
          check_eslint_availability_def run_eslint_def js_env_missing_def py_lower_def lower_char_def)
  then obtain rs where s: "js_module_analyze_code js_env_missing ''var x'' ''js'' = Inr rs" by blast
  have "\<exists>r. analyze_code_py py_env_missing ''x = 1'' ''python'' = Inr (Some r)"
    by (simp add: analyze_code_py_def py_analyze_code_def analyze_python_code_def
          parse_analysis_results_def run_pylint_def run_radon_complexity_def radon_handler_def
          create_error_result_def py_env_missing_def py_lower_def lower_char_def dict_get_def Let_def)
  then obtain rp where p: "analyze_code_py py_env_missing ''x = 1'' ''python'' = Inr (Some rp)" by blast
  from total_issues_invariant [where cenv = cpp_env_missing and available = False
        and ccode = "''int x;''" and clang = "''C++''" and rc = rc
        and jenv = java_env_missing and jcode = "''int x''" and jlang = "''java''" and rj = rj
        and senv = js_env_missing and scode = "''var x''" and slang = "''js''" and rs = rs
        and penv = py_env_missing and pcode = "''x = 1''" and plang = "''python''" and rp = rp
        and v = "VList [VDict [(''messages'', VList [VDict eval_message])]]"
        and es = es and ws = ws and n = n
        and pl = "create_error_result ''Analysis timeout'' ''timeout''"
        and rd = "create_error_result ''Radon not installed'' ''environment''"
        and qlang = "''Python''" and rq = rq]
  show ?thesis using c j s p e q by simp
qed

section \<open>The unsupported language, the C-family scenario, the inert branch\<close>

text \<open>
  Claim C8. Through \<open>analyze_code\<close> of analyzer\_java.py, a language other than
  \<open>java\<close> (compared in lower case), such as \<open>Rust\<close>, gets a result with no error,
  exactly one warning whose rule is \<open>NotImplemented\<close>, complexity 1.0 and
  maintainability index 75.0, in every world.
\<close>

theorem unsupported_language_result:
  "py_lower lang \<notin> set [''java''] \<Longrightarrow>
   \<exists>r w. java_analyze_code env code lang = Inr r \<and> errors r = [] \<and> warnings r = [w]
     \<and> dict_get w ''symbol'' VNone = VStr ''NotImplemented''
     \<and> complexity r = 1 \<and> maintainability_index r = 75"
  by (simp add: java_analyze_code_def dict_get_def)

theorem unsupported_language_result_witness:
  "py_lower ''Rust'' \<notin> set [''java'']
   \<and> (\<exists>r w. java_analyze_code java_env_missing ''fn main() {}'' ''Rust'' = Inr r
          \<and> errors r = [] \<and> warnings r = [w]
          \<and> dict_get w ''symbol'' VNone = VStr ''NotImplemented''
          \<and> complexity r = 1 \<and> maintainability_index r = 75)"
proof -
  have h: "py_lower ''Rust'' \<notin> set [''java'']"
    by (simp add: py_lower_def lower_char_def)
  from unsupported_language_result [OF h, of java_env_missing "''fn main() {}''"] h
  show ?thesis by simp
qed

lemma scenario_complexity: "estimate_complexity_from_code scenario_code = 2"
  unfolding scenario_code_def by code_simp

lemma scenario_not_blank: "strip scenario_code \<noteq> []"
  unfolding scenario_code_def by code_simp

text \<open>
  Claim C9. For the input \<open>#include <iostream>\<close>, newline,
  \<open>int main(){ if(1){} return 0; }\<close>, when the probe finds clang-tidy unavailable,
  the C++ analyzer returns complexity 2.0 (1 plus one \<open>if\<close>), no errors, no warnings
  and the availability flag false.
\<close>

theorem cpp_scenario_without_tool:
  "check_clang_tidy_availability (cpp_probe env) = Inr False \<Longrightarrow>
   \<exists>r. analyze_cpp_code env scenario_code lang = Inr r \<and> complexity r = 2
     \<and> errors r = [] \<and> warnings r = [] \<and> \<not> clang_tidy_available r"
  by (simp add: analyze_cpp_code_def cpp_analyze_def run_clang_tidy_analysis_def
        scenario_complexity scenario_not_blank Let_def)

theorem cpp_scenario_without_tool_witness:
  "check_clang_tidy_availability (cpp_probe cpp_env_missing) = Inr False
   \<and> (\<exists>r. analyze_cpp_code cpp_env_missing scenario_code ''C++'' = Inr r \<and> complexity r = 2
          \<and> errors r = [] \<and> warnings r = [] \<and> \<not> clang_tidy_available r)"
proof -
  have h: "check_clang_tidy_availability (cpp_probe cpp_env_missing) = Inr False"
    by (simp add: check_clang_tidy_availability_def cpp_env_missing_def)
  from cpp_scenario_without_tool [OF h, of "''C++''"] h show ?thesis by simp
qed

text \<open>
  Claim C10. For a language whose lower-case form is not \<open>python\<close>, the method
  \<open>CodeAnalyzer.analyze_code\<close> and the function \<open>analyze_code_py\<close> return Python's
  \<open>None\<close>, not an analysis result: the branch for other languages is inside a
  string literal.
\<close>

theorem non_python_returns_none:
  "py_lower lang \<noteq> ''python'' \<Longrightarrow>
   py_analyze_code env code lang = Inr None \<and> analyze_code_py env code lang = Inr None"
  by (simp add: py_analyze_code_def analyze_code_py_def)

theorem non_python_returns_none_witness:
  "py_lower ''Java'' \<noteq> ''python''
   \<and> py_analyze_code py_env_missing ''class A {}'' ''Java'' = Inr None
   \<and> analyze_code_py py_env_missing ''class A {}'' ''Java'' = Inr None"
proof -
  have h: "py_lower ''Java'' \<noteq> ''python''"
    by (simp add: py_lower_def lower_char_def)
  from non_python_returns_none [OF h, of py_env_missing "''class A {}''"] h
  show ?thesis by simp
qed

section \<open>The average complexity of the Python analyzer\<close>

text \<open>For one file entry the result is the mean of its values, and 1.0 when it has none.\<close>

lemma complexity_items_sum:
  "values_numeric items \<Longrightarrow>
   complexity_items items (t, n)
     = Inr (t + sum_list (function_values items), n + length (function_values items))"
proof (induction items arbitrary: t n)
  case Nil
  show ?case by (simp add: function_values_def)
next
  case (Cons item items)
  then have i: "value_numeric item" and r: "values_numeric items"
    by (simp_all add: values_numeric_def)
  show ?case
  proof (cases item)
    case (VDict d)
    show ?thesis
    proof (cases "dict_has d ''complexity''")
      case True
      with i VDict obtain c where c: "as_number (dict_get d ''complexity'' VNone) = Some c"
        by (auto simp: value_numeric_def)
      with True VDict Cons.IH [OF r, of "t + c" "n + 1"] show ?thesis
        by (simp add: function_values_def the_number_def add.assoc)
    next
      case False
      with VDict Cons.IH [OF r, of t n] show ?thesis
        by (simp add: function_values_def)
    qed
  qed (use Cons.IH [OF r, of t n] in \<open>simp_all add: function_values_def\<close>)
qed

lemma single_file_mean:
  "values_numeric items \<Longrightarrow>
   calculate_average_complexity (VDict [(f, VList items)])
     = Inr (if function_values items = [] then 1
            else sum_list (function_values items) / of_nat (length (function_values items)))"
  by (simp add: calculate_average_complexity_def complexity_items_sum)

text \<open>
  Claim C6. The claim says the complexity is the mean of the function-level values over
  every file entry. At the radon output with the two entries \<open>a.py\<close> (no function)
  and \<open>b.py\<close> (one function of complexity 4), in this order, the code returns 1.0,
  not 4.0: the test for an empty count stands inside the loop over the files and
  returns after the first file. With the entries in the other order it returns 4.0.
\<close>

theorem average_complexity_early_return:
  "calculate_average_complexity
     (VDict [(''a.py'', VList []), (''b.py'', VList [VDict [(''complexity'', VInt 4)]])]) = Inr 1
   \<and> calculate_average_complexity
     (VDict [(''b.py'', VList [VDict [(''complexity'', VInt 4)]]), (''a.py'', VList [])]) = Inr 4"
  by (simp add: calculate_average_complexity_def dict_has_def dict_get_def)

section \<open>The complexity score of the JavaScript analyzer\<close>

lemma indicator_weight_scorable:
  "scorable issue \<Longrightarrow> indicator_weight (dict_get issue ''ruleId'' (VStr [])) = Inr (rule_weight issue)"
  by (cases "dict_get issue ''ruleId'' (VStr [])") (auto simp: scorable_def rule_weight_def)

lemma complexity_loop_sum:
  "list_all scorable issues \<Longrightarrow>
   complexity_loop issues t = Inr (t + sum_list (map (\<lambda>i. rule_weight i * numeric_severity i) issues))"
proof (induction issues arbitrary: t)
  case Nil
  then show ?case by simp
next
  case (Cons issue rest)
  then have s: "scorable issue" and r: "list_all scorable rest" by simp_all
  from s obtain sev where sev: "as_number (dict_get issue ''severity'' (VInt 1)) = Some sev"
    by (auto simp: scorable_def)
  then have n: "numeric_severity issue = sev"
    by (simp add: numeric_severity_def the_number_def)
  show ?case
    using Cons.IH [OF r] indicator_weight_scorable [OF s] sev n
    by (simp add: Let_def add.assoc)
qed

text \<open>
  On a list of messages as ESLint prints them (numeric severities, rule identifiers
  that are neither lists nor dictionaries), \<open>_calculate_complexity_score\<close> returns
  1.0 plus the sum of weight times severity, capped at 20.0, in exact arithmetic: the
  function is written for the keys \<open>ruleId\<close> and \<open>severity\<close> of the tool.
\<close>

lemma complexity_score_on_messages:
  "list_all scorable issues \<Longrightarrow>
   calculate_complexity_score issues =
     Inr (min (1 + sum_list (map (\<lambda>i. rule_weight i * numeric_severity i) issues)) 20)"
  by (cases issues) (simp_all add: calculate_complexity_score_def complexity_loop_sum del: complexity_loop.simps)

text \<open>
  Claim C7. The issue list of a successful run on which ESLint reports one use of
  \<open>eval\<close> at warning level has one issue, whose rule has the weight 1.5 in the
  table, so the score of the claim is 1.0 + 1.5 = 2.5, which is also what the function
  returns on the message as ESLint prints it. The analyzer passes its own normalised
  issue instead, whose severity is the string \<open>warning\<close> and which has no
  \<open>ruleId\<close> entry: the product of the weight and that string raises
  \<open>TypeError\<close>, in \<open>_calculate_complexity_score\<close> and so in the entry point.
\<close>

theorem complexity_score_raises:
  "parse_eslint_output (VList [VDict [(''messages'', VList [VDict eval_message])]])
     = Inr ([], [eslint_issue eval_message], 1)
   \<and> calculate_complexity_score [eval_message] = Inr (5 / 2)
   \<and> calculate_complexity_score ([] @ [eslint_issue eval_message]) = Inl TypeError
   \<and> js_module_analyze_code js_env_eval ''eval(x)'' ''javascript'' = Inl TypeError"
  by (simp add: parse_eslint_output_def severity_is_2_def eval_message_def dict_get_def
        calculate_complexity_score_def eslint_issue_def js_module_analyze_code_def
        analyze_javascript_code_def js_analyze_code_def check_eslint_availability_def
        run_eslint_def js_env_eval_def py_lower_def lower_char_def Let_def
        complexity_indicators_def)

section \<open>The classification of issues\<close>

text \<open>
  The parsers of pylint's and ESLint's JSON, of checkstyle's XML and of clang-tidy's
  YAML append every issue they build to exactly one of the two lists, so the lengths
  add up; the list is chosen by the severity that the parser writes into the issue.
\<close>

lemma pylint_issue_severity:
  "pylint_issue v = Inr (t, d) \<Longrightarrow> severity_of d = VStr t"
  by (auto simp: pylint_issue_def severity_of_def dict_get_def split: sum.splits pyval.splits)

lemma pylint_issues_length:
  "pylint_issues vs (es, ws) = Inr (es', ws') \<Longrightarrow>
   length es' + length ws' = length es + length ws + length vs"
  by (induction vs arbitrary: es ws) (fastforce split: sum.splits if_splits)+

lemma pylint_issues_errors:
  "pylint_issues vs (es, ws) = Inr (es', ws') \<Longrightarrow>
   list_all (\<lambda>i. severity_of i \<in> {VStr ''error'', VStr ''fatal''}) es \<Longrightarrow>
   list_all (\<lambda>i. severity_of i \<in> {VStr ''error'', VStr ''fatal''}) es'"
  by (induction vs arbitrary: es ws)
     (fastforce split: sum.splits if_splits dest: pylint_issue_severity)+

lemma pylint_issues_warnings:
  "pylint_issues vs (es, ws) = Inr (es', ws') \<Longrightarrow>
   list_all (\<lambda>i. severity_of i \<notin> {VStr ''error'', VStr ''fatal''}) ws \<Longrightarrow>
   list_all (\<lambda>i. severity_of i \<notin> {VStr ''error'', VStr ''fatal''}) ws'"
  by (induction vs arbitrary: es ws)
     (fastforce split: sum.splits if_splits dest: pylint_issue_severity)+

lemma eslint_issue_severity:
  "severity_of (eslint_issue m) = VStr (if severity_is_2 m then ''error'' else ''warning'')"
  by (simp add: eslint_issue_def severity_of_def dict_get_def)

lemma eslint_messages_length:
  "eslint_messages ms (es, ws) = Inr (es', ws') \<Longrightarrow>
   length es' + length ws' = length es + length ws + length ms"
  by (induction ms arbitrary: es ws) (fastforce split: sum.splits if_splits)+

lemma eslint_messages_errors:
  "eslint_messages ms (es, ws) = Inr (es', ws') \<Longrightarrow>
   list_all (\<lambda>i. severity_of i = VStr ''error'') es \<Longrightarrow>
   list_all (\<lambda>i. severity_of i = VStr ''error'') es'"
  by (induction ms arbitrary: es ws)
     (fastforce split: sum.splits if_splits simp: eslint_issue_severity)+

lemma eslint_messages_warnings:
  "eslint_messages ms (es, ws) = Inr (es', ws') \<Longrightarrow>
   list_all (\<lambda>i. severity_of i = VStr ''warning'') ws \<Longrightarrow>
   list_all (\<lambda>i. severity_of i = VStr ''warning'') ws'"
  by (induction ms arbitrary: es ws)
     (fastforce split: sum.splits if_splits simp: eslint_issue_severity)+

lemma checkstyle_errors_length:
  "checkstyle_errors xs (es, ws) = Inr (es', ws') \<Longrightarrow>
   length es' + length ws' = length es + length ws + length xs"
  by (induction xs arbitrary: es ws) (fastforce split: sum.splits if_splits)+

lemma checkstyle_errors_errors:
  "checkstyle_errors xs (es, ws) = Inr (es', ws') \<Longrightarrow>
   list_all severity_is_error es \<Longrightarrow> list_all severity_is_error es'"
  by (induction xs arbitrary: es ws) (fastforce split: sum.splits if_splits)+

lemma checkstyle_errors_warnings:
  "checkstyle_errors xs (es, ws) = Inr (es', ws') \<Longrightarrow>
   list_all (\<lambda>i. \<not> severity_is_error i) ws \<Longrightarrow> list_all (\<lambda>i. \<not> severity_is_error i) ws'"
  by (induction xs arbitrary: es ws) (fastforce split: sum.splits if_splits)+

lemma yaml_issue_severity:
  "yaml_issue v = Inr i \<Longrightarrow> severity_of i = VStr ''error'' \<or> severity_of i = VStr ''warning''"
  by (auto simp: yaml_issue_def severity_of_def dict_get_def
           split: sum.splits pyval.splits if_splits)

lemma yaml_loop_length:
  "yaml_loop ds (es, ws) = Inr (es', ws') \<Longrightarrow>
   length es' + length ws' = length es + length ws + length ds"
  by (induction ds arbitrary: es ws) (fastforce split: sum.splits if_splits)+

lemma yaml_loop_errors:
  "yaml_loop ds (es, ws) = Inr (es', ws') \<Longrightarrow>
   list_all (\<lambda>i. severity_of i = VStr ''error'') es \<Longrightarrow>
   list_all (\<lambda>i. severity_of i = VStr ''error'') es'"
  by (induction ds arbitrary: es ws)
     (fastforce split: sum.splits if_splits simp: severity_of_def)+

lemma yaml_loop_warnings:
  "yaml_loop ds (es, ws) = Inr (es', ws') \<Longrightarrow>
   list_all (\<lambda>i. severity_of i = VStr ''warning'') ws \<Longrightarrow>
   list_all (\<lambda>i. severity_of i = VStr ''warning'') ws'"
  by (induction ds arbitrary: es ws)
     (fastforce split: sum.splits if_splits simp: severity_of_def dest: yaml_issue_severity)+

text \<open>
  Claim C4. A line of clang-tidy's text output at the level \<open>note\<close> matches the
  line pattern, which lists \<open>note\<close> among its severities, and the issue built
  from it is appended to neither sequence: the text parser has a branch for
  \<open>error\<close> and one for \<open>warning\<close> and no other, so the diagnostic is missing
  from the result of the analyzer. The YAML branch of the same function keeps a
  diagnostic of that level, as a warning.
\<close>

theorem clang_note_dropped:
  "map_option (\<lambda>g. grp g 4) (re_match clang_line_rx note_line) = Some ''note''
   \<and> parse_clang_tidy_output (\<lambda>s. None) note_line False = Inr ([], [])
   \<and> (case analyze_cpp_code cpp_env_note scenario_code ''C++'' of
         Inr r \<Rightarrow> errors r = [] \<and> warnings r = [] \<and> total_issues r = 0
       | Inl e \<Rightarrow> False)
   \<and> (case parse_clang_tidy_output (\<lambda>s. Some (VDict [(''Diagnostics'', VList [note_diagnostic])]))
               ''yaml'' True of
         Inr (es, ws) \<Rightarrow> es = [] \<and> length ws = 1
       | Inl e \<Rightarrow> False)"
  by code_simp

section \<open>Bounds of the metrics\<close>

lemma foldl_add_ge: "(a::nat) \<le> foldl (\<lambda>c p. c + f p) a ps"
proof (induction ps arbitrary: a)
  case Nil
  show ?case by simp
next
  case (Cons p ps)
  have "a \<le> a + f p" by simp
  also have "\<dots> \<le> foldl (\<lambda>c p. c + f p) (a + f p) ps" by (rule Cons.IH)
  finally show ?case by simp
qed

lemma estimate_complexity_ge_1: "1 \<le> estimate_complexity_from_code code"
proof -
  have "(1::nat) \<le> foldl (\<lambda>c p. c + length (findall p code)) 1 cpp_patterns"
    by (rule foldl_add_ge)
  then show ?thesis
    unfolding estimate_complexity_from_code_def by (metis of_nat_1 of_nat_le_iff)
qed

lemma estimate_maintainability_bounds:
  "0 \<le> estimate_maintainability_index code c \<and> estimate_maintainability_index code c \<le> 100"
  by (simp add: estimate_maintainability_index_def Let_def)

lemma cpp_analyze_bounds:
  "cpp_analyze env available code lang = Inr r \<Longrightarrow>
   0 \<le> maintainability_index r \<and> maintainability_index r \<le> 100 \<and> 1 \<le> complexity r"
  using estimate_complexity_ge_1 [of code]
    estimate_maintainability_bounds [of code "estimate_complexity_from_code code"]
  by (auto simp: cpp_analyze_def Let_def split: if_splits sum.splits prod.splits)

lemma calculate_complexity_metrics_bounds:
  "calculate_complexity_metrics code = (c, m) \<Longrightarrow> 1 \<le> c \<and> 0 \<le> m \<and> m \<le> 100"
  by (auto simp: calculate_complexity_metrics_def Let_def split: if_splits)

lemma basic_java_analysis_bounds:
  "0 \<le> maintainability_index (basic_java_analysis code)
   \<and> maintainability_index (basic_java_analysis code) \<le> 100
   \<and> 1 \<le> complexity (basic_java_analysis code)"
  using calculate_complexity_metrics_bounds [of code]
  by (cases "calculate_complexity_metrics code")
     (auto simp: basic_java_analysis_def split: prod.splits)

lemma java_analyze_bounds:
  "java_analyze env code = Inr r \<Longrightarrow>
   0 \<le> maintainability_index r \<and> maintainability_index r \<le> 100 \<and> 1 \<le> complexity r"
  using calculate_complexity_metrics_bounds [of code] basic_java_analysis_bounds [of code]
  by (cases "calculate_complexity_metrics code")
     (auto simp: java_analyze_def split: if_splits sum.splits prod.splits)

lemma java_analyze_code_bounds:
  "java_analyze_code env code lang = Inr r \<Longrightarrow>
   0 \<le> maintainability_index r \<and> maintainability_index r \<le> 100 \<and> 1 \<le> complexity r"
  using java_analyze_bounds [of env code r]
  by (auto simp: java_analyze_code_def analyze_java_code_def split: if_splits)

lemma eslint_messages_from:
  "eslint_messages ms (es, ws) = Inr (es', ws') \<Longrightarrow>
   list_all from_eslint (es @ ws) \<Longrightarrow> list_all from_eslint (es' @ ws')"
  by (induction ms arbitrary: es ws) (fastforce split: sum.splits if_splits simp: from_eslint_def)+

lemma eslint_files_from:
  "eslint_files fs (es, ws) = Inr (es', ws') \<Longrightarrow>
   list_all from_eslint (es @ ws) \<Longrightarrow> list_all from_eslint (es' @ ws')"
proof (induction fs arbitrary: es ws)
  case Nil
  then show ?case by simp
next
  case (Cons f fs)
  from Cons.prems(1) obtain d msgs es1 ws1 where
    "as_dict f = Inr d" "py_iter (dict_get d ''messages'' (VList [])) = Inr msgs"
    and m: "eslint_messages msgs (es, ws) = Inr (es1, ws1)"
    and r: "eslint_files fs (es1, ws1) = Inr (es', ws')"
    by (auto split: sum.splits)
  from eslint_messages_from [OF m Cons.prems(2)] have "list_all from_eslint (es1 @ ws1)" .
  from Cons.IH [OF r this] show ?case .
qed

lemma complexity_score_from_eslint:
  "calculate_complexity_score xs = Inr c \<Longrightarrow> list_all from_eslint xs \<Longrightarrow> xs = [] \<and> c = 1"
  by (cases xs)
     (auto simp: calculate_complexity_score_def from_eslint_def eslint_issue_def dict_get_def Let_def
           split: sum.splits if_splits)

lemma calculate_maintainability_bounds:
  "0 \<le> calculate_maintainability_index es ws \<and> calculate_maintainability_index es ws \<le> 100"
  by (simp add: calculate_maintainability_index_def Let_def)

lemma js_analyze_code_bounds:
  "js_analyze_code env available code lang = Inr r \<Longrightarrow>
   0 \<le> maintainability_index r \<and> maintainability_index r \<le> 100 \<and> 1 \<le> complexity r"
proof (cases "run_eslint env available code = VNone")
  case True
  assume "js_analyze_code env available code lang = Inr r"
  with True show ?thesis by (auto simp: js_analyze_code_def)
next
  case False
  assume a: "js_analyze_code env available code lang = Inr r"
  with False obtain es ws n c where
    p: "parse_eslint_output (run_eslint env available code) = Inr (es, ws, n)"
    and c: "calculate_complexity_score (es @ ws) = Inr c"
    and r: "complexity r = c" "maintainability_index r = calculate_maintainability_index es ws"
    by (auto simp: js_analyze_code_def Let_def split: sum.splits)
  from p obtain fs where "eslint_files fs ([], []) = Inr (es, ws)"
    by (auto simp: parse_eslint_output_def split: sum.splits prod.splits)
  from eslint_files_from [OF this] have "list_all from_eslint (es @ ws)" by simp
  from complexity_score_from_eslint [OF c this] have "c = 1" by simp
  with r calculate_maintainability_bounds [of es ws] show ?thesis by simp
qed

lemma js_module_analyze_code_bounds:
  "js_module_analyze_code env code lang = Inr r \<Longrightarrow>
   0 \<le> maintainability_index r \<and> maintainability_index r \<le> 100 \<and> 1 \<le> complexity r"
  by (auto simp: js_module_analyze_code_def analyze_javascript_code_def
           dest: js_analyze_code_bounds split: if_splits sum.splits)

lemma radon_handler_no_metrics:
  "dict_get (radon_handler e) ''complexity'' (VFloat 1) = VFloat 1
   \<and> dict_get (radon_handler e) ''maintainability_index'' (VFloat 50) = VFloat 50"
  by (simp add: radon_handler_def create_error_result_def dict_get_def)

lemma parse_analysis_results_metrics:
  "parse_analysis_results pl rd lang = Inr r \<Longrightarrow>
   complexity r = the_number (dict_get rd ''complexity'' (VFloat 1))
   \<and> maintainability_index r = the_number (dict_get rd ''maintainability_index'' (VFloat 50))"
  by (auto simp: parse_analysis_results_def Let_def split: sum.splits prod.splits)

lemma analyze_code_py_metrics:
  "analyze_code_py env code lang = Inr (Some r) \<Longrightarrow>
   complexity r = the_number (dict_get (run_radon_complexity env code) ''complexity'' (VFloat 1))
   \<and> maintainability_index r =
       the_number (dict_get (run_radon_complexity env code) ''maintainability_index'' (VFloat 50))"
  by (auto simp: analyze_code_py_def py_analyze_code_def analyze_python_code_def
           dest: parse_analysis_results_metrics split: if_splits sum.splits)

lemma radon_failed_defaults:
  "analyze_code_py env code lang = Inr (Some r) \<Longrightarrow>
   radon_cc_run env code = Raises e \<or> radon_mi_run env code = Raises e \<Longrightarrow>
   complexity r = 1 \<and> maintainability_index r = 50"
  using radon_handler_no_metrics
  by (auto dest!: analyze_code_py_metrics simp: run_radon_complexity_def the_number_def
           split: proc.splits)

lemma radon_passed_through:
  "analyze_code_py env code lang = Inr (Some r) \<Longrightarrow>
   radon_cc_run env code = Completed rc out err \<Longrightarrow>
   radon_mi_run env code = Completed rc2 out2 err2 \<Longrightarrow>
   calculate_average_complexity (radon_data env out) = Inr a \<Longrightarrow>
   extract_maintainability_index env (radon_data env out2) = Inr m \<Longrightarrow>
   complexity r = a \<and> maintainability_index r = m"
  by (auto dest!: analyze_code_py_metrics
           simp: run_radon_complexity_def the_number_def dict_get_def Let_def)

text \<open>
  Claim C5, amended. Every result of the C++, the Java and the JavaScript analyzer has
  a maintainability index between 0 and 100 and a complexity of at least 1. The Python
  analyzer does not clamp: the complexity and the maintainability index of its result
  are the numbers that \<open>_calculate_average_complexity\<close> and
  \<open>_extract_maintainability_index\<close> compute from the output of the metrics tool,
  and 1.0 and 50.0 when a run of that tool raises.
\<close>

theorem metrics_bounds:
  "(cpp_analyze cenv available ccode clang = Inr rc \<longrightarrow>
      0 \<le> maintainability_index rc \<and> maintainability_index rc \<le> 100 \<and> 1 \<le> complexity rc)
   \<and> (java_analyze_code jenv jcode jlang = Inr rj \<longrightarrow>
      0 \<le> maintainability_index rj \<and> maintainability_index rj \<le> 100 \<and> 1 \<le> complexity rj)
   \<and> (js_module_analyze_code senv scode slang = Inr rs \<longrightarrow>
      0 \<le> maintainability_index rs \<and> maintainability_index rs \<le> 100 \<and> 1 \<le> complexity rs)
   \<and> (analyze_code_py penv pcode plang = Inr (Some rp)
        \<and> (radon_cc_run penv pcode = Raises e \<or> radon_mi_run penv pcode = Raises e) \<longrightarrow>
      complexity rp = 1 \<and> maintainability_index rp = 50)
   \<and> (analyze_code_py qenv qcode qlang = Inr (Some rq)
        \<and> radon_cc_run qenv qcode = Completed rc1 out1 err1
        \<and> radon_mi_run qenv qcode = Completed rc2 out2 err2
        \<and> calculate_average_complexity (radon_data qenv out1) = Inr a
        \<and> extract_maintainability_index qenv (radon_data qenv out2) = Inr m \<longrightarrow>
      complexity rq = a \<and> maintainability_index rq = m)"
  using cpp_analyze_bounds [of cenv available ccode clang rc]
    java_analyze_code_bounds [of jenv jcode jlang rj]
    js_module_analyze_code_bounds [of senv scode slang rs]
    radon_failed_defaults [of penv pcode plang rp e]
    radon_passed_through [of qenv qcode qlang rq rc1 out1 err1 rc2 out2 err2 a m]
  by blast

theorem metrics_bounds_witness:
  "(\<exists>r. cpp_analyze cpp_env_missing False ''int x;'' ''C++'' = Inr r
        \<and> 0 \<le> maintainability_index r \<and> maintainability_index r \<le> 100 \<and> 1 \<le> complexity r)
   \<and> (\<exists>r. java_analyze_code java_env_missing ''int x'' ''java'' = Inr r
        \<and> 0 \<le> maintainability_index r \<and> maintainability_index r \<le> 100 \<and> 1 \<le> complexity r)
   \<and> (\<exists>r. js_module_analyze_code js_env_missing ''var x'' ''js'' = Inr r
        \<and> 0 \<le> maintainability_index r \<and> maintainability_index r \<le> 100 \<and> 1 \<le> complexity r)
   \<and> (\<exists>r. analyze_code_py py_env_missing ''x = 1'' ''python'' = Inr (Some r)
        \<and> radon_cc_run py_env_missing ''x = 1'' = Raises FileNotFoundError
        \<and> complexity r = 1 \<and> maintainability_index r = 50)
   \<and> (\<exists>r. analyze_code_py (py_env_radon (175 / 2)) ''x = 1'' ''python'' = Inr (Some r)
        \<and> radon_cc_run (py_env_radon (175 / 2)) ''x = 1'' = Completed 0 ''cc'' []
        \<and> radon_mi_run (py_env_radon (175 / 2)) ''x = 1'' = Completed 0 ''mi'' []
        \<and> calculate_average_complexity (radon_data (py_env_radon (175 / 2)) ''cc'') = Inr 1
        \<and> extract_maintainability_index (py_env_radon (175 / 2))
              (radon_data (py_env_radon (175 / 2)) ''mi'') = Inr (175 / 2)
        \<and> complexity r = 1 \<and> maintainability_index r = 175 / 2)"
proof -
  have "\<exists>r. cpp_analyze cpp_env_missing False ''int x;'' ''C++'' = Inr r"
    by (simp add: cpp_analyze_def run_clang_tidy_analysis_def Let_def)
  then obtain rc where c: "cpp_analyze cpp_env_missing False ''int x;'' ''C++'' = Inr rc" by blast
  have "\<exists>r. java_analyze_code java_env_missing ''int x'' ''java'' = Inr r"
    by (simp add: java_analyze_code_def analyze_java_code_def java_analyze_def
          check_checkstyle_availability_def java_env_missing_def py_lower_def lower_char_def)
  then obtain rj where j: "java_analyze_code java_env_missing ''int x'' ''java'' = Inr rj" by blast
  have "\<exists>r. js_module_analyze_code js_env_missing ''var x'' ''js'' = Inr r"
    by (simp add: js_module_analyze_code_def analyze_javascript_code_def js_analyze_code_def
          check_eslint_availability_def run_eslint_def js_env_missing_def py_lower_def lower_char_def)
  then obtain rs where s: "js_module_analyze_code js_env_missing ''var x'' ''js'' = Inr rs" by blast
  have "\<exists>r. analyze_code_py py_env_missing ''x = 1'' ''python'' = Inr (Some r)"
    by (simp add: analyze_code_py_def py_analyze_code_def analyze_python_code_def
          parse_analysis_results_def run_pylint_def run_radon_complexity_def radon_handler_def
          create_error_result_def py_env_missing_def py_lower_def lower_char_def dict_get_def Let_def)
  then obtain rp where p: "analyze_code_py py_env_missing ''x = 1'' ''python'' = Inr (Some rp)" by blast
  have pe: "radon_cc_run py_env_missing ''x = 1'' = Raises FileNotFoundError"
    by (simp add: py_env_missing_def)
  have "case analyze_code_py (py_env_radon (175 / 2)) ''x = 1'' ''python'' of
          Inr (Some r) \<Rightarrow> True | other \<Rightarrow> False"
    by code_simp
  then obtain rq where q: "analyze_code_py (py_env_radon (175 / 2)) ''x = 1'' ''python'' = Inr (Some rq)"
    by (auto split: sum.splits option.splits)
  have q1: "radon_cc_run (py_env_radon (175 / 2)) ''x = 1'' = Completed 0 ''cc'' []"
    and q2: "radon_mi_run (py_env_radon (175 / 2)) ''x = 1'' = Completed 0 ''mi'' []"
    by (simp_all add: py_env_radon_def)
  have q3: "calculate_average_complexity (radon_data (py_env_radon (175 / 2)) ''cc'') = Inr 1"
    by code_simp
  have q4: "extract_maintainability_index (py_env_radon (175 / 2))
              (radon_data (py_env_radon (175 / 2)) ''mi'') = Inr (175 / 2)"
    by code_simp
  from metrics_bounds [where cenv = cpp_env_missing and available = False
        and ccode = "''int x;''" and clang = "''C++''" and rc = rc
        and jenv = java_env_missing and jcode = "''int x''" and jlang = "''java''" and rj = rj
        and senv = js_env_missing and scode = "''var x''" and slang = "''js''" and rs = rs
        and penv = py_env_missing and pcode = "''x = 1''" and plang = "''python''" and rp = rp
        and e = FileNotFoundError
        and qenv = "py_env_radon (175 / 2)" and qcode = "''x = 1''" and qlang = "''python''"
        and rq = rq and ?rc1.0 = 0 and ?out1.0 = "''cc''" and ?err1.0 = "[]"
        and ?rc2.0 = 0 and ?out2.0 = "''mi''" and ?err2.0 = "[]" and a = 1 and m = "175 / 2"]
    c j s p pe q q1 q2 q3 q4
  show ?thesis by simp
qed

text \<open>
  The claim as stated fails for the Python analyzer: an index of 150 in the metrics
  tool's output is the index of the result.
\<close>

theorem python_index_unclamped_counterexample:
  "(case analyze_code_py (py_env_radon 150) ''x = 1'' ''python'' of
      Inr (Some r) \<Rightarrow> maintainability_index r = 150 \<and> \<not> maintainability_index r \<le> 100
    | other \<Rightarrow> False)"
  by code_simp

section \<open>Empty source text\<close>

lemma dropWhile_space_empty: "dropWhile py_isspace s = [] \<longleftrightarrow> blank s"
  by (simp add: blank_def dropWhile_eq_Nil_conv list_all_iff)

lemma strip_empty_iff: "strip s = [] \<longleftrightarrow> blank s"
proof
  assume "strip s = []"
  then have "dropWhile py_isspace (rev (dropWhile py_isspace s)) = []"
    unfolding strip_def by simp
  then have "\<forall>x\<in>set (rev (dropWhile py_isspace s)). py_isspace x"
    unfolding dropWhile_eq_Nil_conv .
  then have a: "\<forall>x\<in>set (dropWhile py_isspace s). py_isspace x"
    by simp
  have "dropWhile py_isspace s = []"
  proof (rule ccontr)
    assume n: "dropWhile py_isspace s \<noteq> []"
    then have "\<not> py_isspace (hd (dropWhile py_isspace s))" by (rule hd_dropWhile)
    moreover from n have "hd (dropWhile py_isspace s) \<in> set (dropWhile py_isspace s)" by simp
    ultimately show False using a by blast
  qed
  then show "blank s" by (simp only: dropWhile_space_empty)
next
  assume "blank s"
  then have "dropWhile py_isspace s = []" by (simp only: dropWhile_space_empty)
  then show "strip s = []" by (simp only: strip_def rev.simps dropWhile.simps)
qed

lemma split_chr_blank: "blank s \<Longrightarrow> list_all blank (split_chr c s)"
  by (induction s) (auto simp: blank_def split: list.splits)

lemma space_not_word: "py_isspace c \<Longrightarrow> \<not> py_isword c"
  by (auto simp: py_isspace_def py_isword_def)

lemma findall_from_blank:
  assumes "\<And>p s'. blank s' \<Longrightarrow> blank_before p \<Longrightarrow> rx_match r (p, s', []) = []"
  shows "blank s \<Longrightarrow> blank_before p \<Longrightarrow> findall_from r k p s = []"
proof (induction s arbitrary: k p)
  case Nil
  then show ?case using assms [of "[]" p] by simp
next
  case (Cons x xs)
  then have xs: "blank xs" and x: "blank_before (Some x)"
    by (simp_all add: blank_def blank_before_def)
  show ?case
  proof (cases k)
    case 0
    with Cons.prems assms [of "x # xs" p] Cons.IH [OF xs x] show ?thesis by simp
  next
    case (Suc k')
    with Cons.IH [OF xs x] show ?thesis by simp
  qed
qed

lemma wordb_blank: "blank s \<Longrightarrow> blank_before p \<Longrightarrow> rx_match WordB (p, s, g) = []"
  by (cases s; cases p) (auto simp: blank_def blank_before_def space_not_word)

lemma seq_wordb_blank:
  "blank s \<Longrightarrow> blank_before p \<Longrightarrow> rx_match (Seq WordB r) (p, s, g) = []"
  by (simp only: rx_match.simps(5) wordb_blank list.map concat.simps)

lemma seq_lit_blank:
  "blank s \<Longrightarrow> \<not> py_isspace c \<Longrightarrow> rx_match (Seq (Ch (Lit c)) r) (p, s, g) = []"
  by (cases s) (auto simp: blank_def simp del: rx_match.simps(7) rx_match.simps(8))

lemma keyword_blank:
  "blank s \<Longrightarrow> blank_before p \<Longrightarrow> rx_match (java_keyword_rx kw) (p, s, []) = []"
  unfolding java_keyword_rx_def seqs_def
  by (simp only: foldr.simps o_apply seq_wordb_blank)

lemma ternary_blank:
  "blank s \<Longrightarrow> blank_before p \<Longrightarrow> rx_match java_ternary_rx (p, s, []) = []"
  unfolding java_ternary_rx_def seqs_def
  by (simp only: foldr.simps o_apply) (rule seq_lit_blank, simp_all add: py_isspace_def)

lemma findall_keyword_blank: "blank s \<Longrightarrow> findall (java_keyword_rx kw) s = []"
  unfolding findall_def
  by (rule findall_from_blank) (simp_all add: keyword_blank blank_before_def)

lemma findall_ternary_blank: "blank s \<Longrightarrow> findall java_ternary_rx s = []"
  unfolding findall_def
  by (rule findall_from_blank) (simp_all add: ternary_blank blank_before_def)

lemma blank_lines_filtered:
  assumes "blank s"
  shows "filter (\<lambda>line. strip line \<noteq> [] \<and> P line) (split_chr c s) = []"
proof -
  have "\<forall>l\<in>set (split_chr c s). strip l = []"
    using split_chr_blank [OF assms, of c] by (simp add: list_all_iff strip_empty_iff)
  then show ?thesis by (simp add: filter_empty_conv)
qed

lemma metrics_blank:
  assumes "strip code = []"
  shows "calculate_complexity_metrics code = (1, 100)"
proof -
  from assms have b: "blank code" by (simp only: strip_empty_iff)
  show ?thesis
    unfolding calculate_complexity_metrics_def
    by (simp only: findall_keyword_blank [OF b] findall_ternary_blank [OF b]
          blank_lines_filtered [OF b] Let_def) simp
qed

lemma cpp_analyze_blank:
  "strip code = [] \<Longrightarrow>
   \<exists>r. cpp_analyze env available code lang = Inr r \<and> complexity r = 1 \<and> maintainability_index r = 100"
  by (simp add: cpp_analyze_def)

lemma java_analyze_blank:
  assumes "strip code = []" and "java_analyze env code = Inr r"
  shows "complexity r = 1 \<and> maintainability_index r = 100"
  using assms(2) metrics_blank [OF assms(1)]
  by (auto simp: java_analyze_def basic_java_analysis_def split: if_splits sum.splits prod.splits)

lemma run_eslint_none:
  "\<not> available \<or> (\<exists>e. eslint_run env code = Raises e)
   \<or> (\<exists>rc out err. eslint_run env code = Completed rc out err \<and> out \<noteq> []
          \<and> js_json_loads env out = None) \<Longrightarrow>
   run_eslint env available code = VNone"
  by (auto simp: run_eslint_def)

lemma js_fallback:
  "\<not> available \<or> (\<exists>e. eslint_run env code = Raises e)
   \<or> (\<exists>rc out err. eslint_run env code = Completed rc out err \<and> out \<noteq> []
          \<and> js_json_loads env out = None) \<Longrightarrow>
   \<exists>r. js_analyze_code env available code lang = Inr r \<and> complexity r = 5
       \<and> maintainability_index r = 50"
  by (drule run_eslint_none) (simp add: js_analyze_code_def)

lemma js_no_messages:
  "run_eslint env available code \<noteq> VNone \<Longrightarrow>
   parse_eslint_output (run_eslint env available code) = Inr ([], [], n) \<Longrightarrow>
   \<exists>r. js_analyze_code env available code lang = Inr r \<and> complexity r = 1
       \<and> maintainability_index r = 100"
  by (simp add: js_analyze_code_def calculate_complexity_score_def
        calculate_maintainability_index_def Let_def)

lemma js_empty_output:
  "eslint_run env code = Completed rc [] err \<Longrightarrow>
   \<exists>r. js_analyze_code env True code lang = Inr r \<and> complexity r = 1
       \<and> maintainability_index r = 100"
  by (simp add: js_analyze_code_def run_eslint_def parse_eslint_output_def
        calculate_complexity_score_def calculate_maintainability_index_def Let_def)

lemma complexity_items_no_function:
  "function_values items = [] \<Longrightarrow> complexity_items items (t, c) = Inr (t, c)"
  by (induction items) (auto simp: function_values_def split: pyval.splits if_splits)

lemma average_no_function:
  assumes "no_function_reported cc_data"
  shows "calculate_average_complexity (VDict cc_data) = Inr 1"
proof (cases cc_data)
  case Nil
  then show ?thesis by (simp add: calculate_average_complexity_def)
next
  case (Cons entry rest)
  with assms have "case snd entry of VList items \<Rightarrow> function_values items = [] | other \<Rightarrow> True"
    by (simp add: no_function_reported_def)
  then have "complexity_files (snd entry # map snd rest) (0, 0) = Inr 1"
    by (cases "snd entry") (simp_all add: complexity_items_no_function)
  with Cons show ?thesis by (simp add: calculate_average_complexity_def)
qed

lemma radon_no_function:
  assumes "analyze_code_py env code lang = Inr (Some r)"
    and "radon_cc_run env code = Completed rc out err"
    and "radon_mi_run env code = Completed rc2 out2 err2"
    and "radon_data env out = VDict cc_data"
    and "no_function_reported cc_data"
    and "radon_data env out2 = VDict ((f2, VDict d) # rest2)"
    and "map_of d ''mi'' = Some (VFloat m)"
  shows "complexity r = 1 \<and> maintainability_index r = m"
proof -
  have a: "calculate_average_complexity (radon_data env out) = Inr 1"
    using assms(4,5) by (simp add: average_no_function)
  have b: "extract_maintainability_index env (radon_data env out2) = Inr m"
    using assms(6,7)
    by (simp add: extract_maintainability_index_def dict_has_def dict_get_def py_float_def)
  from radon_passed_through [OF assms(1,2,3) a b] show ?thesis .
qed

text \<open>
  Claim C3, amended. For empty or white-space-only source text: the C++ analyzer returns
  complexity 1.0 and maintainability index 100.0, whatever the tool does; so does the
  Java analyzer whenever it returns a result. The JavaScript analyzer returns 5.0 and
  50.0 when the tool is unavailable, when its run raises, or when its output is not
  empty and is not JSON; it returns 1.0 and 100.0 when the run completes and reports no
  message, as it does when the output of the run is empty, whatever its exit status.
  The Python analyzer returns 1.0 and 50.0 when a run of the metrics tool raises;
  otherwise it returns what the metrics tool reports: complexity 1.0 when no file entry
  of the tool's output reports a function, and the index of the first entry of its
  maintainability output. The conjuncts for the JavaScript and Python analyzers hold
  for every source text, the blank ones among them.
\<close>

theorem blank_source_metrics:
  "(strip ccode = [] \<longrightarrow>
      (\<exists>r. cpp_analyze cenv available ccode clang = Inr r \<and> complexity r = 1
           \<and> maintainability_index r = 100))
   \<and> (strip jcode = [] \<and> java_analyze jenv jcode = Inr rj \<longrightarrow>
      complexity rj = 1 \<and> maintainability_index rj = 100)
   \<and> (\<not> savail \<or> (\<exists>e. eslint_run senv scode = Raises e)
        \<or> (\<exists>rc out err. eslint_run senv scode = Completed rc out err \<and> out \<noteq> []
               \<and> js_json_loads senv out = None) \<longrightarrow>
      (\<exists>r. js_analyze_code senv savail scode slang = Inr r \<and> complexity r = 5
           \<and> maintainability_index r = 50))
   \<and> (run_eslint tenv tavail tcode \<noteq> VNone
        \<and> parse_eslint_output (run_eslint tenv tavail tcode) = Inr ([], [], n) \<longrightarrow>
      (\<exists>r. js_analyze_code tenv tavail tcode tlang = Inr r \<and> complexity r = 1
           \<and> maintainability_index r = 100))
   \<and> (eslint_run uenv ucode = Completed urc [] uerr \<longrightarrow>
      (\<exists>r. js_analyze_code uenv True ucode ulang = Inr r \<and> complexity r = 1
           \<and> maintainability_index r = 100))
   \<and> (analyze_code_py penv pcode plang = Inr (Some rp)
        \<and> (radon_cc_run penv pcode = Raises e \<or> radon_mi_run penv pcode = Raises e) \<longrightarrow>
      complexity rp = 1 \<and> maintainability_index rp = 50)
   \<and> (analyze_code_py qenv qcode qlang = Inr (Some rq)
        \<and> radon_cc_run qenv qcode = Completed rc1 out1 err1
        \<and> radon_mi_run qenv qcode = Completed rc2 out2 err2
        \<and> radon_data qenv out1 = VDict cc_data
        \<and> no_function_reported cc_data
        \<and> radon_data qenv out2 = VDict ((f2, VDict d) # rest2)
        \<and> map_of d ''mi'' = Some (VFloat m) \<longrightarrow>
      complexity rq = 1 \<and> maintainability_index rq = m)"
proof (intro conjI impI)
  assume "strip ccode = []"
  then show "\<exists>r. cpp_analyze cenv available ccode clang = Inr r \<and> complexity r = 1
                \<and> maintainability_index r = 100"
    by (rule cpp_analyze_blank)
next
  assume "strip jcode = [] \<and> java_analyze jenv jcode = Inr rj"
  then show "complexity rj = 1" and "maintainability_index rj = 100"
    using java_analyze_blank [of jcode jenv rj] by simp_all
next
  assume "\<not> savail \<or> (\<exists>e. eslint_run senv scode = Raises e)
        \<or> (\<exists>rc out err. eslint_run senv scode = Completed rc out err \<and> out \<noteq> []
               \<and> js_json_loads senv out = None)"
  then show "\<exists>r. js_analyze_code senv savail scode slang = Inr r \<and> complexity r = 5
                \<and> maintainability_index r = 50"
    by (rule js_fallback)
next
  assume "run_eslint tenv tavail tcode \<noteq> VNone
        \<and> parse_eslint_output (run_eslint tenv tavail tcode) = Inr ([], [], n)"
  then show "\<exists>r. js_analyze_code tenv tavail tcode tlang = Inr r \<and> complexity r = 1
                \<and> maintainability_index r = 100"
    using js_no_messages [of tenv tavail tcode n tlang] by simp
next
  assume "eslint_run uenv ucode = Completed urc [] uerr"
  then show "\<exists>r. js_analyze_code uenv True ucode ulang = Inr r \<and> complexity r = 1
                \<and> maintainability_index r = 100"
    by (rule js_empty_output)
next
  assume "analyze_code_py penv pcode plang = Inr (Some rp)
        \<and> (radon_cc_run penv pcode = Raises e \<or> radon_mi_run penv pcode = Raises e)"
  then show "complexity rp = 1" and "maintainability_index rp = 50"
    using radon_failed_defaults [of penv pcode plang rp e] by simp_all
next
  assume "analyze_code_py qenv qcode qlang = Inr (Some rq)
        \<and> radon_cc_run qenv qcode = Completed rc1 out1 err1
        \<and> radon_mi_run qenv qcode = Completed rc2 out2 err2
        \<and> radon_data qenv out1 = VDict cc_data
        \<and> no_function_reported cc_data
        \<and> radon_data qenv out2 = VDict ((f2, VDict d) # rest2)
        \<and> map_of d ''mi'' = Some (VFloat m)"
  then show "complexity rq = 1" and "maintainability_index rq = m"
    using radon_no_function [of qenv qcode qlang rq rc1 out1 err1 rc2 out2 err2 cc_data f2 d rest2 m]
    by simp_all
qed

theorem blank_source_metrics_witness:
  "strip blank_code = []
   \<and> (\<exists>r. cpp_analyze cpp_env_missing False blank_code ''C++'' = Inr r \<and> complexity r = 1
          \<and> maintainability_index r = 100)
   \<and> (\<exists>r. java_analyze java_env_missing blank_code = Inr r \<and> complexity r = 1
          \<and> maintainability_index r = 100)
   \<and> (\<exists>r. js_analyze_code js_env_missing False blank_code ''js'' = Inr r \<and> complexity r = 5
          \<and> maintainability_index r = 50)
   \<and> eslint_run js_env_garbled blank_code = Completed 2 ''Error: Cannot read config file'' []
   \<and> (\<exists>r. js_analyze_code js_env_garbled True blank_code ''js'' = Inr r \<and> complexity r = 5
          \<and> maintainability_index r = 50)
   \<and> run_eslint js_env_clean True blank_code \<noteq> VNone
   \<and> parse_eslint_output (run_eslint js_env_clean True blank_code) = Inr ([], [], 0)
   \<and> (\<exists>r. js_analyze_code js_env_clean True blank_code ''js'' = Inr r \<and> complexity r = 1
          \<and> maintainability_index r = 100)
   \<and> eslint_run js_env_crash blank_code = Completed 2 [] ''Oops! Something went wrong!''
   \<and> (\<exists>r. js_analyze_code js_env_crash True blank_code ''js'' = Inr r \<and> complexity r = 1
          \<and> maintainability_index r = 100)
   \<and> (\<exists>r. analyze_code_py py_env_missing blank_code ''python'' = Inr (Some r)
          \<and> radon_cc_run py_env_missing blank_code = Raises FileNotFoundError
          \<and> complexity r = 1 \<and> maintainability_index r = 50)
   \<and> no_function_reported [(''/tmp/tmp0.py'', VList [])]
   \<and> (\<exists>r. analyze_code_py (py_env_radon 100) blank_code ''python'' = Inr (Some r)
          \<and> complexity r = 1 \<and> maintainability_index r = 100)"
proof -
  have b: "strip blank_code = []"
    by (simp add: blank_code_def strip_def py_isspace_def)
  have "\<exists>r. java_analyze java_env_missing blank_code = Inr r"
    by (simp add: java_analyze_def check_checkstyle_availability_def java_env_missing_def)
  then obtain rj where j: "java_analyze java_env_missing blank_code = Inr rj" by blast
  have g: "eslint_run js_env_garbled blank_code = Completed 2 ''Error: Cannot read config file'' []"
    and gl: "js_json_loads js_env_garbled ''Error: Cannot read config file'' = None"
    by (simp_all add: js_env_garbled_def)
  have t1: "run_eslint js_env_clean True blank_code \<noteq> VNone"
    by (simp add: run_eslint_def js_env_clean_def)
  have t2: "parse_eslint_output (run_eslint js_env_clean True blank_code) = Inr ([], [], 0)"
    by (simp add: run_eslint_def js_env_clean_def parse_eslint_output_def dict_get_def)
  have u: "eslint_run js_env_crash blank_code = Completed 2 [] ''Oops! Something went wrong!''"
    by (simp add: js_env_crash_def)
  have "\<exists>r. analyze_code_py py_env_missing blank_code ''python'' = Inr (Some r)"
    by (simp add: analyze_code_py_def py_analyze_code_def analyze_python_code_def
          parse_analysis_results_def run_pylint_def run_radon_complexity_def radon_handler_def
          create_error_result_def py_env_missing_def py_lower_def lower_char_def dict_get_def Let_def)
  then obtain rp where p: "analyze_code_py py_env_missing blank_code ''python'' = Inr (Some rp)"
    by blast
  have pe: "radon_cc_run py_env_missing blank_code = Raises FileNotFoundError"
    by (simp add: py_env_missing_def)
  have "case analyze_code_py (py_env_radon 100) blank_code ''python'' of
          Inr (Some r) \<Rightarrow> True | other \<Rightarrow> False"
    by code_simp
  then obtain rq where q: "analyze_code_py (py_env_radon 100) blank_code ''python'' = Inr (Some rq)"
    by (auto split: sum.splits option.splits)
  have q1: "radon_cc_run (py_env_radon 100) blank_code = Completed 0 ''cc'' []"
    and q2: "radon_mi_run (py_env_radon 100) blank_code = Completed 0 ''mi'' []"
    by (simp_all add: py_env_radon_def)
  have q3: "radon_data (py_env_radon 100) ''cc'' = VDict [(''/tmp/tmp0.py'', VList [])]"
    by (simp add: radon_data_def py_env_radon_def strip_def py_isspace_def)
  have q3n: "no_function_reported [(''/tmp/tmp0.py'', VList [])]"
    by (simp add: no_function_reported_def function_values_def)
  have q4: "radon_data (py_env_radon 100) ''mi''
              = VDict ((''/tmp/tmp0.py'', VDict [(''mi'', VFloat 100), (''rank'', VStr ''A'')]) # [])"
    by (simp add: radon_data_def py_env_radon_def strip_def py_isspace_def)
  have q5: "map_of [(''mi'', VFloat 100), (''rank'', VStr ''A'')] ''mi'' = Some (VFloat 100)"
    by simp
  note thm1 = blank_source_metrics [where ccode = blank_code and cenv = cpp_env_missing
      and available = False and clang = "''C++''"
      and jcode = blank_code and jenv = java_env_missing and rj = rj
      and senv = js_env_missing and savail = False and scode = blank_code and slang = "''js''"
      and tenv = js_env_clean and tavail = True and tcode = blank_code and tlang = "''js''" and n = 0
      and uenv = js_env_crash and ucode = blank_code and urc = 2
      and uerr = "''Oops! Something went wrong!''" and ulang = "''js''"
      and penv = py_env_missing and pcode = blank_code and plang = "''python''" and rp = rp
      and e = FileNotFoundError
      and qenv = "py_env_radon 100" and qcode = blank_code and qlang = "''python''" and rq = rq
      and ?rc1.0 = 0 and ?out1.0 = "''cc''" and ?err1.0 = "[]"
      and ?rc2.0 = 0 and ?out2.0 = "''mi''" and ?err2.0 = "[]"
      and cc_data = "[(''/tmp/tmp0.py'', VList [])]" and ?f2.0 = "''/tmp/tmp0.py''"
      and d = "[(''mi'', VFloat 100), (''rank'', VStr ''A'')]" and ?rest2.0 = "[]" and m = 100]
  note thm2 = blank_source_metrics [where senv = js_env_garbled and savail = True
      and scode = blank_code and slang = "''js''"]
  from thm1 b j t1 t2 u p pe q q1 q2 q3 q3n q4 q5
  have first: "(\<exists>r. cpp_analyze cpp_env_missing False blank_code ''C++'' = Inr r \<and> complexity r = 1
          \<and> maintainability_index r = 100)
   \<and> (\<exists>r. java_analyze java_env_missing blank_code = Inr r \<and> complexity r = 1
          \<and> maintainability_index r = 100)
   \<and> (\<exists>r. js_analyze_code js_env_missing False blank_code ''js'' = Inr r \<and> complexity r = 5
          \<and> maintainability_index r = 50)
   \<and> (\<exists>r. js_analyze_code js_env_clean True blank_code ''js'' = Inr r \<and> complexity r = 1
          \<and> maintainability_index r = 100)
   \<and> (\<exists>r. js_analyze_code js_env_crash True blank_code ''js'' = Inr r \<and> complexity r = 1
          \<and> maintainability_index r = 100)
   \<and> (\<exists>r. analyze_code_py py_env_missing blank_code ''python'' = Inr (Some r)
          \<and> radon_cc_run py_env_missing blank_code = Raises FileNotFoundError
          \<and> complexity r = 1 \<and> maintainability_index r = 50)
   \<and> (\<exists>r. analyze_code_py (py_env_radon 100) blank_code ''python'' = Inr (Some r)
          \<and> complexity r = 1 \<and> maintainability_index r = 100)"
    by simp
  from thm2 g gl
  have second: "\<exists>r. js_analyze_code js_env_garbled True blank_code ''js'' = Inr r \<and> complexity r = 5
          \<and> maintainability_index r = 50"
    by simp
  from first second b g t1 t2 u q3n show ?thesis by simp
qed

text \<open>
  The claim as stated fails for the JavaScript analyzer: on the empty text, with no
  ESLint installed, the result has the neutral defaults 5.0 and 50.0.
\<close>

theorem js_blank_counterexample:
  "(case js_module_analyze_code js_env_missing [] ''javascript'' of
      Inr r \<Rightarrow> complexity r = 5 \<and> maintainability_index r = 50
    | Inl e \<Rightarrow> False)"
  by (simp add: js_module_analyze_code_def analyze_javascript_code_def js_analyze_code_def
        check_eslint_availability_def run_eslint_def js_env_missing_def py_lower_def lower_char_def)

section \<open>Failures of the tools\<close>

lemma java_analyze_returns:
  "probe_plain (checkstyle_probe env) \<Longrightarrow> \<exists>r. java_analyze env code = Inr r"
  by (auto simp: java_analyze_def probe_plain_def check_checkstyle_availability_def
           split: proc.splits sum.splits prod.splits)

lemma java_analyze_code_returns:
  "probe_plain (checkstyle_probe env) \<Longrightarrow> \<exists>r. java_analyze_code env code lang = Inr r"
  using java_analyze_returns [of env code]
  by (auto simp: java_analyze_code_def analyze_java_code_def)

lemma cpp_unavailable_returns:
  "check_clang_tidy_availability (cpp_probe env) = Inr False \<Longrightarrow>
   \<exists>r. analyze_cpp_code env code lang = Inr r \<and> errors r = [] \<and> warnings r = []"
  by (simp add: analyze_cpp_code_def cpp_analyze_def run_clang_tidy_analysis_def Let_def)

lemma cpp_timeout_returns:
  "strip code \<noteq> [] \<Longrightarrow> clang_tidy_text env (create_temp_cpp_file code) = Raises TimeoutExpired \<Longrightarrow>
   \<exists>r. cpp_analyze env True code lang = Inr r \<and> errors r = [] \<and> warnings r = [timeout_warning]"
  by (simp add: cpp_analyze_def run_clang_tidy_analysis_def run_handler_def Let_def)

lemma cpp_failure_returns:
  "strip code \<noteq> [] \<Longrightarrow>
   clang_tidy_text env (create_temp_cpp_file code) = Raises (SubprocessError msg) \<Longrightarrow>
   \<exists>r. cpp_analyze env True code lang = Inr r
       \<and> errors r = [analysis_error (SubprocessError msg)] \<and> warnings r = []"
  by (simp add: cpp_analyze_def run_clang_tidy_analysis_def run_handler_def Let_def)

lemma js_failure_returns:
  "\<not> available \<or> (\<exists>e. eslint_run env code = Raises e)
   \<or> (\<exists>rc out err. eslint_run env code = Completed rc out err \<and> out \<noteq> []
          \<and> js_json_loads env out = None) \<Longrightarrow>
   \<exists>r. js_analyze_code env available code lang = Inr r \<and> errors r = []
       \<and> warnings r = [eslint_unavailable]"
  by (drule run_eslint_none) (simp add: js_analyze_code_def)

lemma js_clean_returns:
  "run_eslint env available code \<noteq> VNone \<Longrightarrow>
   parse_eslint_output (run_eslint env available code) = Inr ([], [], n) \<Longrightarrow>
   \<exists>r. js_analyze_code env available code lang = Inr r \<and> errors r = [] \<and> warnings r = []"
  by (simp add: js_analyze_code_def calculate_complexity_score_def Let_def)

lemma pylint_issue_ok_returns: "pylint_issue_ok v \<Longrightarrow> \<exists>t d. pylint_issue v = Inr (t, d)"
  by (auto simp: pylint_issue_ok_def pylint_issue_def split: pyval.splits)

lemma pylint_issues_returns:
  "list_all pylint_issue_ok vs \<Longrightarrow> \<exists>es' ws'. pylint_issues vs (es, ws) = Inr (es', ws')"
proof (induction vs arbitrary: es ws)
  case Nil
  show ?case by simp
next
  case (Cons v vs)
  then have "pylint_issue_ok v" and r: "list_all pylint_issue_ok vs" by simp_all
  then obtain t d where "pylint_issue v = Inr (t, d)"
    using pylint_issue_ok_returns by blast
  with Cons.IH [OF r] show ?case by simp
qed

lemma run_pylint_issues:
  "dict_get (run_pylint env code) ''issues'' (VList []) = VList (pylint_issue_values env code)"
  by (auto simp: pylint_issue_values_def run_pylint_def create_error_result_def dict_get_def Let_def
           split: proc.splits pyval.splits option.splits)

lemma analyze_python_code_returns:
  assumes "list_all pylint_issue_ok (pylint_issue_values env code)"
  shows "\<exists>r. analyze_python_code env code = Inr r"
proof -
  obtain es ws where
    "pylint_issues (pylint_issue_values env code)
       ((if truthy (dict_get (run_pylint env code) ''error'' VNone)
         then [[(''type'', VStr ''tool_error''),
                (''message'', VStr (''Pylint error: '' @ str_of (dict_get (run_pylint env code) ''error'' VNone))),
                (''severity'', VStr ''high'')]]
         else []) @
        (if truthy (dict_get (run_radon_complexity env code) ''error'' VNone)
         then [[(''type'', VStr ''tool_error''),
                (''message'',
                   VStr (''Complexity analysis error: ''
                         @ str_of (dict_get (run_radon_complexity env code) ''error'' VNone))),
                (''severity'', VStr ''medium'')]]
         else []), []) = Inr (es, ws)"
    using pylint_issues_returns [OF assms] by blast
  then show ?thesis
    by (simp add: analyze_python_code_def parse_analysis_results_def run_pylint_issues Let_def)
qed

lemma analyze_code_py_returns:
  "py_lower lang = ''python'' \<Longrightarrow> list_all pylint_issue_ok (pylint_issue_values env code) \<Longrightarrow>
   \<exists>r. analyze_code_py env code lang = Inr (Some r)"
  using analyze_python_code_returns [of env code]
  by (auto simp: analyze_code_py_def py_analyze_code_def)

lemma pylint_failure_reported:
  assumes "py_lower lang = ''python''" and "pylint_run env code = Raises e" and "exn_str e \<noteq> []"
  shows "\<exists>r. analyze_code_py env code lang = Inr (Some r) \<and> errors r \<noteq> []
           \<and> dict_get (hd (errors r)) ''type'' VNone = VStr ''tool_error''
           \<and> dict_get (hd (errors r)) ''severity'' VNone = VStr ''high''"
proof -
  have "\<exists>msg ty. run_pylint env code = create_error_result msg ty \<and> msg \<noteq> []"
  proof (cases "e = TimeoutExpired \<or> e = FileNotFoundError")
    case True
    then show ?thesis using assms(2) by (auto simp: run_pylint_def)
  next
    case False
    then have "run_pylint env code = create_error_result (exn_str e) ''runtime''"
      using assms(2) by (simp add: run_pylint_def)
    with assms(3) show ?thesis by blast
  qed
  then obtain msg ty where rp: "run_pylint env code = create_error_result msg ty" and m: "msg \<noteq> []"
    by blast
  show ?thesis
    using assms(1) m
    by (simp add: analyze_code_py_def py_analyze_code_def analyze_python_code_def
          parse_analysis_results_def rp create_error_result_def dict_get_def Let_def)
qed

text \<open>
  Whenever ESLint reports a message, the product of a weight and the string severity
  of a normalised issue raises \<open>TypeError\<close> and no result is returned.
\<close>

lemma complexity_loop_error: "complexity_loop xs t = Inl e \<Longrightarrow> e = TypeError"
proof (induction xs arbitrary: t)
  case Nil
  then show ?case by simp
next
  case (Cons x xs)
  show ?case
  proof (cases "dict_get x ''ruleId'' (VStr [])")
    case (VStr s)
    with Cons show ?thesis by (auto simp: Let_def split: option.splits)
  qed (use Cons in \<open>auto simp: Let_def split: option.splits\<close>)
qed

lemma complexity_score_from_eslint_raises:
  assumes "list_all from_eslint xs" and "xs \<noteq> []"
  shows "calculate_complexity_score xs = Inl TypeError"
proof (cases "calculate_complexity_score xs")
  case (Inl e)
  with assms(2) have "complexity_loop xs 1 = Inl e"
    by (auto simp: calculate_complexity_score_def split: sum.splits)
  from complexity_loop_error [OF this] Inl show ?thesis by simp
next
  case (Inr c)
  from complexity_score_from_eslint [OF Inr assms(1)] assms(2) show ?thesis by simp
qed

lemma js_any_message_raises:
  assumes "run_eslint env available code \<noteq> VNone"
    and "parse_eslint_output (run_eslint env available code) = Inr (es, ws, n)"
    and "es @ ws \<noteq> []"
  shows "js_analyze_code env available code lang = Inl TypeError"
proof -
  from assms(2) obtain fs where "eslint_files fs ([], []) = Inr (es, ws)"
    by (auto simp: parse_eslint_output_def split: sum.splits prod.splits)
  from eslint_files_from [OF this] have "list_all from_eslint (es @ ws)" by simp
  from complexity_score_from_eslint_raises [OF this assms(3)] assms(1,2) show ?thesis
    by (simp add: js_analyze_code_def Let_def)
qed

text \<open>
  Claim C2. ESLint is installed and reports one error for the code, an undefined name
  at severity 2. The parser builds one normalised issue from it, and the entry point
  of the JavaScript analyzer then raises \<open>TypeError\<close> to its caller instead of
  returning a result (so does every run on which ESLint reports a message, by
  \<open>js_any_message_raises\<close>).
\<close>

theorem js_error_message_raises:
  "parse_eslint_output (VList [VDict [(''messages'', VList [VDict undef_message])]])
     = Inr ([eslint_issue undef_message], [], 1)
   \<and> js_module_analyze_code js_env_undef ''foo();'' ''javascript'' = Inl TypeError"
  by (simp add: parse_eslint_output_def severity_is_2_def undef_message_def dict_get_def
        calculate_complexity_score_def eslint_issue_def js_module_analyze_code_def
        analyze_javascript_code_def js_analyze_code_def check_eslint_availability_def
        run_eslint_def js_env_undef_def py_lower_def lower_char_def Let_def)

end
